theory Spec2Isabelle
  imports Main
begin

section \<open>Python values, warnings and exceptions\<close>

text \<open>
  The values that reach \<^verbatim>\<open>Elsa\<close> as arguments and as entries of the Flask
  application's \<^verbatim>\<open>config\<close> dictionary are \<^verbatim>\<open>None\<close> or a string. Python's
  truth test makes \<^verbatim>\<open>None\<close> and the empty string false; \<^verbatim>\<open>a or b\<close> is \<^verbatim>\<open>a\<close> when
  \<^verbatim>\<open>a\<close> is true and \<^verbatim>\<open>b\<close> otherwise (also when \<^verbatim>\<open>b\<close> is false).
\<close>

datatype pyval = PyNone | PyStr string

fun truthy :: "pyval \<Rightarrow> bool" where
  "truthy PyNone = False"
| "truthy (PyStr s) = (s \<noteq> [])"

definition py_or :: "pyval \<Rightarrow> pyval \<Rightarrow> pyval" where
  "py_or a b = (if truthy a then a else b)"

text \<open>
  Warning categories: \<^verbatim>\<open>Warning\<close> itself, \<^verbatim>\<open>DeprecationWarning\<close>,
  \<^verbatim>\<open>flask_frozen.FrozenFlaskWarning\<close>, any subclass of the latter (by name), and any
  other category. \<open>issubclass c d\<close> is Python's \<^verbatim>\<open>issubclass(c, d)\<close> on these.
\<close>

datatype category =
  AnyWarning
| DeprecationWarning
| FrozenFlaskWarning
| FrozenFlaskSubclass string
| OtherWarning string

fun issubclass :: "category \<Rightarrow> category \<Rightarrow> bool" where
  "issubclass c AnyWarning = True"
| "issubclass (FrozenFlaskSubclass n) FrozenFlaskWarning = True"
| "issubclass c d = (c = d)"

text \<open>The actions of a warnings filter, as the \<^verbatim>\<open>warnings\<close> module names them.\<close>

datatype action = ActError | ActIgnore | ActAlways | ActDefault | ActModule | ActOnce

datatype exc =
  ValueError string
| UsageError string
| KeyError string
| WarningRaised category string
| SystemExit nat
| DeployError string
| OtherException string

datatype outcome = Return | Raise exc

text \<open>
  A view function registered on the application: the \<^verbatim>\<open>cname\<close> view of
  \<^verbatim>\<open>_inject_cname\<close>, the shutdown view, or a view of the application's own.
\<close>

datatype view = CnameView | ShutdownView | AppView string

record response =
  body :: pyval
  mimetype :: string

text \<open>
  What the process does that is visible from outside: lines on the two output streams,
  warnings that were issued and not raised (with the action that handled them), and the
  calls made to the collaborators (the freezer, Flask's development server, the
  publisher). \<open>FreezerFreeze\<close> records the URL rules the application had when the
  freezer was asked to freeze it.
\<close>

datatype event =
  Stdout string
| Stderr string
| Warned action category string
| FreezerFreeze "(string \<times> view) list"
| FreezerServe nat
| AppRun string nat bool
| PublisherCalled pyval string bool bool
| Committed pyval
| Pushed string
| GitPushStderr string

section \<open>The state: the application, the warnings filters, the trace\<close>

record world =
  config :: "(string \<times> pyval) list"
  routes :: "(string \<times> view) list"
  jinja_auto_reload :: bool
  filters :: "(action \<times> category) list"
  trace :: "event list"

text \<open>
  \<open>self\<close>: the \<^verbatim>\<open>Elsa\<close> instance. Its \<^verbatim>\<open>app\<close> is the application part of the
  \<open>world\<close>, its \<^verbatim>\<open>freezer\<close> is the \<open>renderer\<close> of the environment below.
\<close>

record elsa =
  self_base_url :: pyval

definition Elsa_init :: "pyval \<Rightarrow> elsa" where
  "Elsa_init base_url_arg = \<lparr>self_base_url = base_url_arg\<rparr>"

definition DEFAULT_PORT :: nat where
  "DEFAULT_PORT = 8003"

definition DEFAULT_REMOTE :: string where
  "DEFAULT_REMOTE = ''origin''"

text \<open>
  One step of what a freezer does while it renders: it issues a warning through
  \<^verbatim>\<open>warnings.warn\<close>, or it raises.
\<close>

datatype step = WarnStep category string | RaiseStep exc

text \<open>
  The collaborators outside \<^verbatim>\<open>_cli.py\<close>, as parameters:
  \<^item> \<open>urlparse_netloc\<close>: \<^verbatim>\<open>urllib.parse.urlparse(u).netloc\<close>; \<open>Inl m\<close> when the
    library rejects \<open>u\<close> with \<^verbatim>\<open>ValueError(m)\<close>;
  \<^item> \<open>renderer\<close>: what \<^verbatim>\<open>self.freezer.freeze()\<close> does on an application with the
    given configuration and URL rules, as the sequence of its warnings and raises;
  \<^item> \<open>shutdown_rule\<close>: the URL rule of the shutdown endpoint;
  \<^item> \<open>tree_valid\<close>, \<open>git_push\<close>: whether a frozen tree exists at a path, and the
    outcome of pushing to a remote (\<open>Some err\<close>: the push failed with diagnostic \<open>err\<close>);
  \<^item> \<open>root_path\<close>: \<^verbatim>\<open>app.root_path\<close>.
\<close>

record env =
  urlparse_netloc :: "pyval \<Rightarrow> string + string"
  renderer :: "(string \<times> pyval) list \<Rightarrow> (string \<times> view) list \<Rightarrow> step list"
  shutdown_rule :: string
  tree_valid :: "pyval \<Rightarrow> bool"
  git_push :: "string \<Rightarrow> string option"
  root_path :: string

subsection \<open>Dictionaries\<close>

text \<open>
  \<^verbatim>\<open>d.get(k)\<close>, \<^verbatim>\<open>d[k] = v\<close> and \<^verbatim>\<open>d[k]\<close> (which raises \<^verbatim>\<open>KeyError\<close> on a
  missing key) on a dictionary kept as an association list in insertion order.
\<close>

fun dict_get :: "(string \<times> pyval) list \<Rightarrow> string \<Rightarrow> pyval" where
  "dict_get [] k = PyNone"
| "dict_get ((k', v) # d) k = (if k' = k then v else dict_get d k)"

fun dict_set :: "(string \<times> pyval) list \<Rightarrow> string \<Rightarrow> pyval \<Rightarrow> (string \<times> pyval) list" where
  "dict_set [] k v = [(k, v)]"
| "dict_set ((k', v') # d) k v = (if k' = k then (k, v) # d else (k', v') # dict_set d k v)"

fun dict_item :: "(string \<times> pyval) list \<Rightarrow> string \<Rightarrow> exc + pyval" where
  "dict_item [] k = Inl (KeyError k)"
| "dict_item ((k', v) # d) k = (if k' = k then Inr v else dict_item d k)"

definition config_get :: "world \<Rightarrow> string \<Rightarrow> pyval" where
  "config_get w k = dict_get (config w) k"

definition config_set :: "string \<Rightarrow> pyval \<Rightarrow> world \<Rightarrow> world" where
  "config_set k v w = w\<lparr>config := dict_set (config w) k v\<rparr>"

subsection \<open>Output and the warnings module\<close>

definition emit :: "event \<Rightarrow> world \<Rightarrow> world" where
  "emit e w = w\<lparr>trace := trace w @ [e]\<rparr>"

text \<open>
  \<^verbatim>\<open>warnings.filterwarnings(action, category=c)\<close> and \<^verbatim>\<open>warnings.simplefilter(action)\<close>
  put their filter in front of the list, after removing an equal one. Both leave the
  message and module patterns empty and the line 0, which match every warning, so a
  filter is its action and its category. \<^verbatim>\<open>warnings.warn\<close> takes the action of the
  first filter whose category the warning's category is a subclass of, and the action
  \<^verbatim>\<open>default\<close> when there is none; the action \<^verbatim>\<open>error\<close> raises the warning as an
  exception.
\<close>

definition add_filter :: "action \<times> category \<Rightarrow> world \<Rightarrow> world" where
  "add_filter item w = w\<lparr>filters := item # remove1 item (filters w)\<rparr>"

definition filterwarnings :: "action \<Rightarrow> category \<Rightarrow> world \<Rightarrow> world" where
  "filterwarnings a c w = add_filter (a, c) w"

definition simplefilter :: "action \<Rightarrow> world \<Rightarrow> world" where
  "simplefilter a w = add_filter (a, AnyWarning) w"

fun find_action :: "(action \<times> category) list \<Rightarrow> category \<Rightarrow> action" where
  "find_action [] c = ActDefault"
| "find_action ((a, fc) # fs) c = (if issubclass c fc then a else find_action fs c)"

definition warnings_warn :: "string \<Rightarrow> category \<Rightarrow> world \<Rightarrow> outcome \<times> world" where
  "warnings_warn msg c w =
     (case find_action (filters w) c of
        ActError \<Rightarrow> (Raise (WarningRaised c msg), w)
      | a \<Rightarrow> (Return, emit (Warned a c msg) w))"

section \<open>The collaborators of \<^verbatim>\<open>_cli.py\<close>\<close>

text \<open>
  \<^verbatim>\<open>self.freezer.freeze()\<close>: the call is recorded, then the freezer's steps run against
  the warnings filters in force; the first raise ends the run.
\<close>

fun run_steps :: "step list \<Rightarrow> world \<Rightarrow> outcome \<times> world" where
  "run_steps [] w = (Return, w)"
| "run_steps (WarnStep c m # ss) w =
     (case warnings_warn m c w of
        (Return, w') \<Rightarrow> run_steps ss w'
      | (Raise e, w') \<Rightarrow> (Raise e, w'))"
| "run_steps (RaiseStep e # ss) w = (Raise e, w)"

definition freezer_freeze :: "env \<Rightarrow> world \<Rightarrow> outcome \<times> world" where
  "freezer_freeze env w =
     run_steps (renderer env (config w) (routes w)) (emit (FreezerFreeze (routes w)) w)"

text \<open>\<^verbatim>\<open>self.freezer.serve(port=port)\<close>: serves until interrupted.\<close>

definition freezer_serve :: "nat \<Rightarrow> world \<Rightarrow> outcome \<times> world" where
  "freezer_serve port w = (Return, emit (FreezerServe port) w)"

text \<open>\<^verbatim>\<open>self.app.run(host, port, debug)\<close>: Flask's development server.\<close>

definition app_run :: "string \<Rightarrow> nat \<Rightarrow> bool \<Rightarrow> world \<Rightarrow> outcome \<times> world" where
  "app_run host port debug w = (Return, emit (AppRun host port debug) w)"

text \<open>
  Modelled from the spec: \<^verbatim>\<open>inject_shutdown\<close> of \<^verbatim>\<open>_shutdown.py\<close>, which is not
  among the sources. The spec's shutdown trigger is a dedicated endpoint attached to the
  application; here it is the rule \<open>shutdown_rule env\<close> with the shutdown view.
\<close>

definition inject_shutdown :: "env \<Rightarrow> world \<Rightarrow> world" where
  "inject_shutdown env w = w\<lparr>routes := routes w @ [(shutdown_rule env, ShutdownView)]\<rparr>"

text \<open>
  Modelled from the spec: \<^verbatim>\<open>deploy\<close> of \<^verbatim>\<open>_deployment.py\<close> (the Publisher), which is
  not among the sources. By the spec it assumes that the path holds a frozen tree and
  fails with \<^verbatim>\<open>DeployError\<close> when none exists; it commits the tree to the publishing
  branch and pushes to the remote when \<open>push\<close> is set, failing with \<^verbatim>\<open>DeployError\<close>
  when the push fails; \<open>show_err\<close> controls whether the push tool's diagnostic output
  goes to the caller's error stream.
\<close>

definition deployment_deploy ::
  "env \<Rightarrow> pyval \<Rightarrow> string \<Rightarrow> bool \<Rightarrow> bool \<Rightarrow> world \<Rightarrow> outcome \<times> world" where
  "deployment_deploy env path remote push show_err w =
     (let w1 = emit (PublisherCalled path remote push show_err) w in
      if \<not> tree_valid env path then (Raise (DeployError ''no frozen tree''), w1)
      else
        let w2 = emit (Committed path) w1 in
        if push then
          (case git_push env remote of
             None \<Rightarrow> (Return, emit (Pushed remote) w2)
           | Some err \<Rightarrow>
               (Raise (DeployError ''push failed''),
                if show_err then emit (GitPushStderr err) w2 else w2))
        else (Return, w2))"

text \<open>\<^verbatim>\<open>os.path.join(a, b)\<close> for a relative \<open>b\<close>, with POSIX separators.\<close>

definition os_path_join :: "string \<Rightarrow> string \<Rightarrow> string" where
  "os_path_join a b = (if a = [] \<or> last a = CHR ''/'' then a @ b else a @ ''/'' @ b)"

section \<open>The class \<^verbatim>\<open>Elsa\<close>\<close>

text \<open>
  \<^verbatim>\<open>_inject_cname\<close> registers the view \<^verbatim>\<open>cname\<close> under \<^verbatim>\<open>/CNAME\<close>; the view
  answers with \<^verbatim>\<open>app.config['SERVER_NAME']\<close> as it is when the view is called.
\<close>

definition inject_cname :: "world \<Rightarrow> world" where
  "inject_cname w = w\<lparr>routes := routes w @ [(''/CNAME'', CnameView)]\<rparr>"

definition cname :: "world \<Rightarrow> exc + response" where
  "cname w =
     (case dict_item (config w) ''SERVER_NAME'' of
        Inl e \<Rightarrow> Inl e
      | Inr v \<Rightarrow> Inr \<lparr>body = v, mimetype = ''application/octet-stream''\<rparr>)"

text \<open>
  \<^verbatim>\<open>Elsa.freeze\<close>, lines 59 to 76: everything before the call of the freezer. The
  result is \<open>Inl (e, w')\<close> when an exception \<open>e\<close> leaves the method in state \<open>w'\<close>,
  and \<open>Inr w'\<close> when the method reaches \<^verbatim>\<open>self.freezer.freeze()\<close> in state \<open>w'\<close>.
\<close>

definition freeze_configure ::
  "env \<Rightarrow> elsa \<Rightarrow> pyval \<Rightarrow> pyval \<Rightarrow> world \<Rightarrow> (exc \<times> world) + world" where
  "freeze_configure env self path_arg base_url_arg w =
     (let base_url = py_or (py_or base_url_arg (self_base_url self))
                           (config_get w ''FREEZER_BASE_URL'') in
      if \<not> truthy base_url then Inl (ValueError ''No base URL provided'', w)
      else
        let w1 = config_set ''FREEZER_BASE_URL'' base_url w;
            path = py_or path_arg (config_get w1 ''FREEZER_DESTINATION'');
            w2 = config_set ''FREEZER_DESTINATION'' path w1
        in
          case urlparse_netloc env base_url of
            Inl m \<Rightarrow> Inl (ValueError m, w2)
          | Inr host \<Rightarrow>
              let w3 = config_set ''SERVER_NAME'' (PyStr host) w2 in
              if \<not> truthy path then Inl (ValueError ''No path provided'', w3)
              else
                Inr (emit (Stdout ''Generating HTML...'')
                       (filterwarnings ActError FrozenFlaskWarning w3)))"

text \<open>\<^verbatim>\<open>Elsa.freeze\<close>: the configuration above, then line 77, \<^verbatim>\<open>self.freezer.freeze()\<close>.\<close>

definition freeze :: "env \<Rightarrow> elsa \<Rightarrow> pyval \<Rightarrow> pyval \<Rightarrow> world \<Rightarrow> outcome \<times> world" where
  "freeze env self path_arg base_url_arg w =
     (case freeze_configure env self path_arg base_url_arg w of
        Inl (e, w') \<Rightarrow> (Raise e, w')
      | Inr w' \<Rightarrow> freezer_freeze env w')"

text \<open>
  \<^verbatim>\<open>Elsa.freeze_fail_exit\<close>: the handler catches \<^verbatim>\<open>FrozenFlaskWarning\<close> and its
  subclasses, prints \<^verbatim>\<open>Error:\<close> and the warning to \<^verbatim>\<open>sys.stderr\<close>, and calls
  \<^verbatim>\<open>sys.exit(1)\<close>, which raises \<^verbatim>\<open>SystemExit(1)\<close>.
\<close>

definition freeze_fail_exit :: "env \<Rightarrow> elsa \<Rightarrow> pyval \<Rightarrow> pyval \<Rightarrow> world \<Rightarrow> outcome \<times> world" where
  "freeze_fail_exit env self path_arg base_url_arg w =
     (case freeze env self path_arg base_url_arg w of
        (Raise (WarningRaised c msg), w') \<Rightarrow>
          if issubclass c FrozenFlaskWarning
          then (Raise (SystemExit 1), emit (Stderr (''Error: '' @ msg)) w')
          else (Raise (WarningRaised c msg), w')
      | r \<Rightarrow> r)"

text \<open>\<^verbatim>\<open>Elsa.serve(port=DEFAULT_PORT)\<close>; \<open>None\<close> is the omitted argument.\<close>

definition serve :: "env \<Rightarrow> elsa \<Rightarrow> nat option \<Rightarrow> world \<Rightarrow> outcome \<times> world" where
  "serve env self port_arg w =
     freezer_serve (case port_arg of None \<Rightarrow> DEFAULT_PORT | Some p \<Rightarrow> p) w"

text \<open>
  \<^verbatim>\<open>Elsa.deploy(*, path=None, remote=None, push=False, show_err=False)\<close>. The keyword
  arguments are a record; \<open>None\<close> in \<open>kw_push\<close> and \<open>kw_show_err\<close> is the omitted
  argument, which takes the default of the signature.
\<close>

record deploy_kwargs =
  kw_path :: pyval
  kw_remote :: pyval
  kw_push :: "bool option"
  kw_show_err :: "bool option"

definition deploy :: "env \<Rightarrow> elsa \<Rightarrow> deploy_kwargs \<Rightarrow> world \<Rightarrow> outcome \<times> world" where
  "deploy env self kw w =
     (let push = (case kw_push kw of None \<Rightarrow> False | Some b \<Rightarrow> b);
          show_err = (case kw_show_err kw of None \<Rightarrow> False | Some b \<Rightarrow> b);
          path = py_or (kw_path kw) (config_get w ''FREEZER_DESTINATION'');
          remote = (case py_or (kw_remote kw) (PyStr DEFAULT_REMOTE) of
                      PyStr r \<Rightarrow> r | PyNone \<Rightarrow> DEFAULT_REMOTE)
      in deployment_deploy env path remote push show_err w)"

section \<open>The command line\<close>

text \<open>
  The options of the three commands as click hands them to the command functions. An
  option with a value is \<open>None\<close> when it is not on the command line and then takes the
  default of its declaration; \<^verbatim>\<open>--show-git-push-stderr\<close> is a flag, true exactly
  when it is on the command line.
\<close>

record serve_args =
  sv_port :: "nat option"
  sv_cname :: "bool option"

record freeze_args =
  fz_path :: "string option"
  fz_base_url :: "string option"
  fz_serve :: "bool option"
  fz_port :: "nat option"
  fz_cname :: "bool option"

record deploy_args =
  dp_path :: "string option"
  dp_base_url :: "string option"
  dp_remote :: "string option"
  dp_push :: "bool option"
  dp_freeze :: "bool option"
  dp_show_git_push_stderr :: bool
  dp_cname :: "bool option"

definition port_option :: "nat option \<Rightarrow> nat" where
  "port_option p = (case p of None \<Rightarrow> DEFAULT_PORT | Some n \<Rightarrow> n)"

definition cname_option :: "bool option \<Rightarrow> bool" where
  "cname_option c = (case c of None \<Rightarrow> True | Some b \<Rightarrow> b)"

definition path_option :: "env \<Rightarrow> string option \<Rightarrow> pyval" where
  "path_option env p =
     PyStr (case p of None \<Rightarrow> os_path_join (root_path env) ''_build'' | Some s \<Rightarrow> s)"

definition base_url_option :: "elsa \<Rightarrow> string option \<Rightarrow> pyval" where
  "base_url_option self b = (case b of None \<Rightarrow> self_base_url self | Some s \<Rightarrow> PyStr s)"

text \<open>The command \<^verbatim>\<open>serve\<close> (lines 131 to 146).\<close>

definition cli_serve :: "env \<Rightarrow> elsa \<Rightarrow> serve_args \<Rightarrow> world \<Rightarrow> outcome \<times> world" where
  "cli_serve env self args w =
     (let port = port_option (sv_port args);
          cname_flag = cname_option (sv_cname args);
          auto_reload = config_get w ''TEMPLATES_AUTO_RELOAD'';
          w1 = (if truthy auto_reload \<or> auto_reload = PyNone
                then w\<lparr>jinja_auto_reload := True\<rparr> else w);
          w2 = inject_shutdown env w1;
          w3 = (if cname_flag then inject_cname w2 else w2)
      in app_run ''0.0.0.0'' port True w3)"

text \<open>The command \<^verbatim>\<open>freeze\<close> (lines 148 to 166).\<close>

definition cli_freeze :: "env \<Rightarrow> elsa \<Rightarrow> freeze_args \<Rightarrow> world \<Rightarrow> outcome \<times> world" where
  "cli_freeze env self args w =
     (let path = path_option env (fz_path args);
          base_url = base_url_option self (fz_base_url args);
          serve_flag = (case fz_serve args of None \<Rightarrow> False | Some b \<Rightarrow> b);
          port = port_option (fz_port args);
          cname_flag = cname_option (fz_cname args);
          w1 = (if cname_flag then inject_cname w else w)
      in
        if \<not> truthy base_url
        then (Raise (UsageError ''No base URL provided, use --base-url''), w1)
        else
          (case freeze_fail_exit env self path base_url w1 of
             (Raise e, w2) \<Rightarrow> (Raise e, w2)
           | (Return, w2) \<Rightarrow> if serve_flag then serve env self (Some port) w2 else (Return, w2)))"

text \<open>
  The command \<^verbatim>\<open>deploy\<close> (lines 168 to 206), in its three parts: the resolution of
  \<^verbatim>\<open>push\<close> (lines 188 to 196), the optional freeze (lines 197 to 203), and the call of
  the publisher (lines 205 and 206).
\<close>

definition deprecation_msg :: string where
  "deprecation_msg =
     ''Using deploy without explicit --push/--no-push is deprecated. Assuming --push for now. In future versions of elsa, the deploy command will not push to the remote server by default. Use --push explicitly to maintain current behavior.''"

definition deploy_push :: "bool option \<Rightarrow> world \<Rightarrow> (exc + bool) \<times> world" where
  "deploy_push push_opt w =
     (case push_opt of
        None \<Rightarrow>
          (case warnings_warn deprecation_msg DeprecationWarning (simplefilter ActAlways w) of
             (Return, w') \<Rightarrow> (Inr True, w')
           | (Raise e, w') \<Rightarrow> (Inl e, w'))
      | Some b \<Rightarrow> (Inr b, w))"

definition deploy_freeze ::
  "env \<Rightarrow> elsa \<Rightarrow> bool \<Rightarrow> bool \<Rightarrow> pyval \<Rightarrow> pyval \<Rightarrow> world \<Rightarrow> outcome \<times> world" where
  "deploy_freeze env self freeze_flag cname_flag path base_url w =
     (if freeze_flag then
        (let w1 = (if cname_flag then inject_cname w else w) in
         if \<not> truthy base_url
         then (Raise (UsageError ''No base URL provided, use --base-url''), w1)
         else freeze_fail_exit env self path base_url w1)
      else (Return, w))"

definition cli_deploy :: "env \<Rightarrow> elsa \<Rightarrow> deploy_args \<Rightarrow> world \<Rightarrow> outcome \<times> world" where
  "cli_deploy env self args w =
     (let path = path_option env (dp_path args);
          base_url = base_url_option self (dp_base_url args);
          remote = (case dp_remote args of None \<Rightarrow> DEFAULT_REMOTE | Some r \<Rightarrow> r);
          freeze_flag = (case dp_freeze args of None \<Rightarrow> True | Some b \<Rightarrow> b);
          cname_flag = cname_option (dp_cname args)
      in
        case deploy_push (dp_push args) w of
          (Inl e, w1) \<Rightarrow> (Raise e, w1)
        | (Inr push, w1) \<Rightarrow>
            (case deploy_freeze env self freeze_flag cname_flag path base_url w1 of
               (Raise e, w2) \<Rightarrow> (Raise e, w2)
             | (Return, w2) \<Rightarrow>
                 deployment_deploy env path remote push (dp_show_git_push_stderr args) w2))"

text \<open>
  \<^verbatim>\<open>Elsa.cli\<close> runs the click group, which dispatches to one command; the function
  \<^verbatim>\<open>cli\<close> of the module builds the instance first.
\<close>

datatype command = ServeCmd serve_args | FreezeCmd freeze_args | DeployCmd deploy_args

definition Elsa_cli :: "env \<Rightarrow> elsa \<Rightarrow> command \<Rightarrow> world \<Rightarrow> outcome \<times> world" where
  "Elsa_cli env self cmd w =
     (case cmd of
        ServeCmd a \<Rightarrow> cli_serve env self a w
      | FreezeCmd a \<Rightarrow> cli_freeze env self a w
      | DeployCmd a \<Rightarrow> cli_deploy env self a w)"

definition cli :: "env \<Rightarrow> pyval \<Rightarrow> command \<Rightarrow> world \<Rightarrow> outcome \<times> world" where
  "cli env base_url_arg cmd w = Elsa_cli env (Elsa_init base_url_arg) cmd w"

text \<open>
  The exit status of the process: click, in its standalone mode, exits with 0 after a
  command that returns and with 2 on a \<^verbatim>\<open>UsageError\<close>; \<^verbatim>\<open>SystemExit(n)\<close> exits
  with \<open>n\<close>; the interpreter exits with 1 on any other exception.
\<close>

fun exit_status :: "outcome \<Rightarrow> nat" where
  "exit_status Return = 0"
| "exit_status (Raise (UsageError m)) = 2"
| "exit_status (Raise (SystemExit n)) = n"
| "exit_status (Raise e) = 1"

section \<open>Observations on a state\<close>

text \<open>
  The spec's words for the resolution of the two settings of \<^verbatim>\<open>freeze\<close>: the explicit
  argument when it is not empty, else the value given at construction, else the
  application's configuration; for the path, the argument, else the configuration.
\<close>

definition effective_base_url :: "pyval \<Rightarrow> pyval \<Rightarrow> pyval \<Rightarrow> pyval" where
  "effective_base_url arg inst cfg =
     (if truthy arg then arg else if truthy inst then inst else cfg)"

definition effective_path :: "pyval \<Rightarrow> pyval \<Rightarrow> pyval" where
  "effective_path arg cfg = (if truthy arg then arg else cfg)"

text \<open>
  The shutdown endpoint is attached when a URL rule of the application leads to the
  shutdown view; a call of the freezer exposes it when the application it was asked to
  freeze had such a rule. A state is free of it when neither has happened.
\<close>

definition shutdown_attached :: "world \<Rightarrow> bool" where
  "shutdown_attached w = (ShutdownView \<in> snd ` set (routes w))"

fun exposes_shutdown :: "event \<Rightarrow> bool" where
  "exposes_shutdown (FreezerFreeze rs) = (ShutdownView \<in> snd ` set rs)"
| "exposes_shutdown e = False"

definition shutdown_free :: "world \<Rightarrow> bool" where
  "shutdown_free w = (\<not> shutdown_attached w \<and> \<not> list_ex exposes_shutdown (trace w))"

text \<open>
  The events a freeze of an application with the URL rules \<open>rs\<close> can add to the trace,
  and the events a call of the publisher with the given arguments can add.
\<close>

fun freeze_event :: "(string \<times> view) list \<Rightarrow> event \<Rightarrow> bool" where
  "freeze_event rs (Stdout s) = (s = ''Generating HTML...'')"
| "freeze_event rs (Stderr s) = True"
| "freeze_event rs (Warned a c m) = (\<not> issubclass c FrozenFlaskWarning)"
| "freeze_event rs (FreezerFreeze rs') = (rs' = rs)"
| "freeze_event rs e = False"

fun publisher_event :: "pyval \<Rightarrow> string \<Rightarrow> bool \<Rightarrow> bool \<Rightarrow> event \<Rightarrow> bool" where
  "publisher_event p r pu se (PublisherCalled p' r' pu' se') =
     (p' = p \<and> r' = r \<and> pu' = pu \<and> se' = se)"
| "publisher_event p r pu se (Committed p') = (p' = p)"
| "publisher_event p r pu se (Pushed r') = (r' = r)"
| "publisher_event p r pu se (GitPushStderr err) = se"
| "publisher_event p r pu se e = False"

section \<open>A concrete application for the examples\<close>

text \<open>
  A URL parser for the examples, after \<^verbatim>\<open>urlsplit\<close> of CPython on plain ASCII
  URLs: a scheme is a letter followed by letters, digits, \<^verbatim>\<open>+\<close>, \<^verbatim>\<open>-\<close> or \<^verbatim>\<open>.\<close>
  up to the first colon; after it, the network location follows \<^verbatim>\<open>//\<close> and ends
  before the next \<^verbatim>\<open>/\<close>, \<^verbatim>\<open>?\<close> or \<^verbatim>\<open>#\<close>; a bracket without its partner is
  rejected with \<^verbatim>\<open>ValueError('Invalid IPv6 URL')\<close>. The example freezer warns about
  a mimetype mismatch when the application has the rule \<^verbatim>\<open>/broken\<close>.
\<close>

definition is_alpha :: "char \<Rightarrow> bool" where
  "is_alpha c = (c \<in> set ''abcdefghijklmnopqrstuvwxyzABCDEFGHIJKLMNOPQRSTUVWXYZ'')"

definition is_scheme_char :: "char \<Rightarrow> bool" where
  "is_scheme_char c = (is_alpha c \<or> c \<in> set ''0123456789+-.'')"

definition drop_scheme :: "string \<Rightarrow> string" where
  "drop_scheme u =
     (let s = takeWhile (\<lambda>c. c \<noteq> CHR '':'') u in
      if s \<noteq> [] \<and> length s < length u \<and> is_alpha (hd s) \<and> list_all is_scheme_char s
      then drop (Suc (length s)) u else u)"

definition example_netloc :: "pyval \<Rightarrow> string + string" where
  "example_netloc v =
     (case v of
        PyNone \<Rightarrow> Inr []
      | PyStr u \<Rightarrow>
          (let r = drop_scheme u in
           if take 2 r = ''//'' then
             (let n = takeWhile (\<lambda>c. c \<noteq> CHR ''/'' \<and> c \<noteq> CHR ''?'' \<and> c \<noteq> CHR ''#'')
                        (drop 2 r) in
              if (CHR ''['' \<in> set n) \<noteq> (CHR '']'' \<in> set n)
              then Inl ''Invalid IPv6 URL'' else Inr n)
           else Inr []))"

definition example_renderer ::
  "(string \<times> pyval) list \<Rightarrow> (string \<times> view) list \<Rightarrow> step list" where
  "example_renderer cfg rs =
     (if ''/broken'' \<in> fst ` set rs
      then [WarnStep (FrozenFlaskSubclass ''MimetypeMismatchWarning'') ''mimetype mismatch'']
      else [])"

definition example_env :: env where
  "example_env =
     \<lparr>urlparse_netloc = example_netloc,
      renderer = example_renderer,
      shutdown_rule = ''/__shutdown__/'',
      tree_valid = (\<lambda>p. p = PyStr ''/srv/site/_build''),
      git_push = (\<lambda>r. if r = ''origin'' then Some ''fatal: Authentication failed'' else None),
      root_path = ''/srv/site''\<rparr>"

definition example_world :: world where
  "example_world =
     \<lparr>config = [(''SERVER_NAME'', PyNone)],
      routes = [(''/'', AppView ''index'')],
      jinja_auto_reload = False,
      filters = [(ActIgnore, DeprecationWarning)],
      trace = []\<rparr>"

definition broken_world :: world where
  "broken_world =
     example_world\<lparr>routes := [(''/'', AppView ''index''), (''/broken'', AppView ''broken'')]\<rparr>"

definition example_url :: string where
  "example_url = ''https://example.com/docs/''"

definition example_elsa :: elsa where
  "example_elsa = Elsa_init PyNone"

definition configured_elsa :: elsa where
  "configured_elsa = Elsa_init (PyStr example_url)"

definition bare_serve_args :: serve_args where
  "bare_serve_args = \<lparr>sv_port = None, sv_cname = None\<rparr>"

definition bare_freeze_args :: freeze_args where
  "bare_freeze_args =
     \<lparr>fz_path = None, fz_base_url = None, fz_serve = None, fz_port = None, fz_cname = None\<rparr>"

definition bare_deploy_args :: deploy_args where
  "bare_deploy_args =
     \<lparr>dp_path = None, dp_base_url = None, dp_remote = None, dp_push = None,
      dp_freeze = None, dp_show_git_push_stderr = False, dp_cname = None\<rparr>"

definition bare_kwargs :: deploy_kwargs where
  "bare_kwargs = \<lparr>kw_path = PyNone, kw_remote = PyNone, kw_push = None, kw_show_err = None\<rparr>"

text \<open>
  Runs that get to the publisher: the command \<^verbatim>\<open>deploy\<close> with the remote
  \<^verbatim>\<open>upstream\<close>, to which the example push succeeds; the command with
  \<^verbatim>\<open>--push --no-freeze\<close>, with or without \<^verbatim>\<open>--show-git-push-stderr\<close>; and the
  keyword arguments \<^verbatim>\<open>path='/srv/site/_build', push=True\<close> with a given
  \<^verbatim>\<open>show_err\<close>.
\<close>

definition upstream_deploy_args :: deploy_args where
  "upstream_deploy_args = bare_deploy_args\<lparr>dp_remote := Some ''upstream''\<rparr>"

definition push_deploy_args :: "bool \<Rightarrow> deploy_args" where
  "push_deploy_args flag =
     \<lparr>dp_path = None, dp_base_url = None, dp_remote = None, dp_push = Some True,
      dp_freeze = Some False, dp_show_git_push_stderr = flag, dp_cname = None\<rparr>"

definition push_kwargs :: "bool option \<Rightarrow> deploy_kwargs" where
  "push_kwargs se =
     \<lparr>kw_path = PyStr ''/srv/site/_build'', kw_remote = PyNone, kw_push = Some True,
      kw_show_err = se\<rparr>"

section \<open>Properties\<close>

subsection \<open>Dictionaries, frames and traces\<close>

lemma dict_get_set: "dict_get (dict_set d k v) k' = (if k = k' then v else dict_get d k')"
  by (induction d) auto

lemma dict_item_set: "dict_item (dict_set d k v) k = Inr v"
  by (induction d) auto

lemma config_get_set:
  "config_get (config_set k v w) k' = (if k = k' then v else config_get w k')"
  by (simp add: config_get_def config_set_def dict_get_set)

lemma config_get_emit: "config_get (emit e w) k = config_get w k"
  by (simp add: config_get_def emit_def)

lemma config_get_filterwarnings: "config_get (filterwarnings a c w) k = config_get w k"
  by (simp add: config_get_def filterwarnings_def add_filter_def)

lemma trace_config_set: "trace (config_set k v w) = trace w"
  by (simp add: config_set_def)

lemma run_steps_frame:
  "run_steps ss w = (r, w') \<Longrightarrow>
     config w' = config w \<and> routes w' = routes w \<and> filters w' = filters w
     \<and> jinja_auto_reload w' = jinja_auto_reload w"
proof (induction ss arbitrary: w)
  case Nil
  then show ?case by simp
next
  case (Cons s ss)
  show ?case
  proof (cases s)
    case (WarnStep c m)
    show ?thesis
    proof (cases "find_action (filters w) c = ActError")
      case True
      with Cons.prems WarnStep show ?thesis by (simp add: warnings_warn_def)
    next
      case False
      then have ww: "warnings_warn m c w = (Return, emit (Warned (find_action (filters w) c) c m) w)"
        by (cases "find_action (filters w) c") (simp_all add: warnings_warn_def)
      with Cons.prems WarnStep
      have "run_steps ss (emit (Warned (find_action (filters w) c) c m) w) = (r, w')" by simp
      from Cons.IH [OF this] show ?thesis by (simp add: emit_def)
    qed
  next
    case (RaiseStep e)
    with Cons.prems show ?thesis by simp
  qed
qed

lemma freezer_freeze_frame:
  "freezer_freeze env w = (r, w') \<Longrightarrow>
     config w' = config w \<and> routes w' = routes w \<and> filters w' = filters w"
  unfolding freezer_freeze_def by (drule run_steps_frame) (simp add: emit_def)

subsection \<open>The configuration of a freeze\<close>

text \<open>
  Claim C1. Whenever the resolved base URL is empty (no argument, no base URL of the
  instance, no \<^verbatim>\<open>FREEZER_BASE_URL\<close> in the configuration) or the resolved path is
  empty (no argument, no \<^verbatim>\<open>FREEZER_DESTINATION\<close>), \<^verbatim>\<open>freeze\<close> raises
  \<^verbatim>\<open>ValueError\<close>, the configuration error of the spec, and the trace is what it was:
  nothing was printed and the freezer was never called.
\<close>

theorem freeze_config_error:
  assumes "\<not> truthy (py_or (py_or base_url_arg (self_base_url self))
                              (config_get w ''FREEZER_BASE_URL''))
           \<or> \<not> truthy (py_or path_arg (config_get w ''FREEZER_DESTINATION''))"
  shows "\<exists>msg w'. freeze env self path_arg base_url_arg w = (Raise (ValueError msg), w')
                   \<and> trace w' = trace w"
proof (cases "truthy (py_or (py_or base_url_arg (self_base_url self))
                            (config_get w ''FREEZER_BASE_URL''))")
  case False
  then show ?thesis by (simp add: freeze_def freeze_configure_def)
next
  case True
  with assms have p: "\<not> truthy (py_or path_arg (config_get w ''FREEZER_DESTINATION''))"
    by simp
  show ?thesis
  proof (cases "urlparse_netloc env (py_or (py_or base_url_arg (self_base_url self))
                            (config_get w ''FREEZER_BASE_URL''))")
    case (Inl m)
    with True show ?thesis
      by (simp add: freeze_def freeze_configure_def Let_def trace_config_set)
  next
    case (Inr h)
    with True p show ?thesis
      by (simp add: freeze_def freeze_configure_def Let_def trace_config_set config_get_set)
  qed
qed

lemma freeze_configure_config:
  assumes "truthy (py_or (py_or b (self_base_url self)) (config_get w ''FREEZER_BASE_URL''))"
    and "freeze_configure env self p b w = Inr w' \<or> freeze_configure env self p b w = Inl (e, w')"
  shows "config_get w' ''FREEZER_BASE_URL''
           = py_or (py_or b (self_base_url self)) (config_get w ''FREEZER_BASE_URL'')
         \<and> config_get w' ''FREEZER_DESTINATION''
           = py_or p (config_get w ''FREEZER_DESTINATION'')"
  using assms
  by (auto simp: freeze_configure_def Let_def config_get_set config_get_emit
      config_get_filterwarnings split: sum.splits if_splits)

lemma freeze_config_get:
  "config_get (snd (freeze env self p b w)) k
     = (case freeze_configure env self p b w of Inl (e, w') \<Rightarrow> config_get w' k
        | Inr w' \<Rightarrow> config_get w' k)"
proof (cases "freeze_configure env self p b w")
  case (Inl a)
  then show ?thesis by (cases a) (simp add: freeze_def)
next
  case (Inr w')
  obtain r w'' where ff: "freezer_freeze env w' = (r, w'')" by (cases "freezer_freeze env w'")
  from freezer_freeze_frame [OF ff] Inr ff show ?thesis
    by (simp add: freeze_def config_get_def)
qed

text \<open>
  Claim C10. The base URL \<^verbatim>\<open>freeze\<close> works with is the argument when that is not
  empty, else the base URL of the instance, else \<^verbatim>\<open>FREEZER_BASE_URL\<close> of the
  configuration; the path is the argument when that is not empty, else
  \<^verbatim>\<open>FREEZER_DESTINATION\<close>. When the base URL so resolved is not empty, both resolved
  values are what the call leaves in the configuration; when it is empty, the call
  raises and changes nothing.
\<close>

theorem freeze_precedence:
  "(if truthy (effective_base_url b (self_base_url self) (config_get w ''FREEZER_BASE_URL''))
    then config_get (snd (freeze env self p b w)) ''FREEZER_BASE_URL''
           = effective_base_url b (self_base_url self) (config_get w ''FREEZER_BASE_URL'')
         \<and> config_get (snd (freeze env self p b w)) ''FREEZER_DESTINATION''
           = effective_path p (config_get w ''FREEZER_DESTINATION'')
    else freeze env self p b w = (Raise (ValueError ''No base URL provided''), w))"
proof -
  have eb: "effective_base_url b (self_base_url self) (config_get w ''FREEZER_BASE_URL'')
            = py_or (py_or b (self_base_url self)) (config_get w ''FREEZER_BASE_URL'')"
    by (simp add: effective_base_url_def py_or_def)
  have ep: "effective_path p (config_get w ''FREEZER_DESTINATION'')
            = py_or p (config_get w ''FREEZER_DESTINATION'')"
    by (simp add: effective_path_def py_or_def)
  show ?thesis
  proof (cases "truthy (py_or (py_or b (self_base_url self)) (config_get w ''FREEZER_BASE_URL''))")
    case False
    then show ?thesis by (simp add: eb freeze_def freeze_configure_def)
  next
    case True
    show ?thesis
    proof (cases "freeze_configure env self p b w")
      case (Inl a)
      obtain e w' where a: "a = (e, w')" by (cases a)
      from freeze_configure_config [OF True, of env p w' e] Inl a True
      show ?thesis by (simp add: eb ep freeze_config_get)
    next
      case (Inr w')
      from freeze_configure_config [OF True, of env p w'] Inr True
      show ?thesis by (simp add: eb ep freeze_config_get)
    qed
  qed
qed


text \<open>
  Claim C4. Whenever the configuration part of \<^verbatim>\<open>freeze\<close> succeeds,
  \<^verbatim>\<open>SERVER_NAME\<close> is the network location of the resolved base URL, and the
  \<^verbatim>\<open>cname\<close> view answers with exactly that name, as \<^verbatim>\<open>application/octet-stream\<close>.
  When the command was run with CNAME support (\<open>cname_flag\<close>, which makes the command
  call \<^verbatim>\<open>_inject_cname\<close> before it freezes), the rule \<^verbatim>\<open>/CNAME\<close> is among the URL
  rules the freezer finds.
\<close>

theorem freeze_server_name:
  assumes "freeze_configure env self p b (if cname_flag then inject_cname w else w) = Inr w'"
  shows "\<exists>host. urlparse_netloc env
                   (py_or (py_or b (self_base_url self)) (config_get w ''FREEZER_BASE_URL''))
                 = Inr host
           \<and> config_get w' ''SERVER_NAME'' = PyStr host
           \<and> cname w' = Inr \<lparr>body = PyStr host, mimetype = ''application/octet-stream''\<rparr>
           \<and> (if cname_flag then routes w' = routes w @ [(''/CNAME'', CnameView)]
               else routes w' = routes w)"
  using assms
  by (auto simp: freeze_configure_def Let_def config_get_set config_get_def config_set_def
      emit_def filterwarnings_def add_filter_def inject_cname_def cname_def dict_item_set dict_get_set
      split: sum.splits if_splits)

subsection \<open>Warnings as errors\<close>

lemma find_action_head: "issubclass c fc \<Longrightarrow> find_action ((a, fc) # fs) c = a"
  by simp

lemma warnings_warn_cases:
  "(find_action (filters w) c = ActError \<and> warnings_warn m c w = (Raise (WarningRaised c m), w))
   \<or> (find_action (filters w) c \<noteq> ActError
       \<and> warnings_warn m c w = (Return, emit (Warned (find_action (filters w) c) c m) w))"
  by (cases "find_action (filters w) c") (simp_all add: warnings_warn_def)

lemma run_steps_append:
  "run_steps pre w = (Return, w'') \<Longrightarrow> run_steps (pre @ ss) w = run_steps ss w''"
proof (induction pre arbitrary: w)
  case Nil
  then show ?case by simp
next
  case (Cons s pre)
  show ?case
  proof (cases s)
    case (WarnStep c m)
    from warnings_warn_cases [of w c m] Cons.prems WarnStep
    have ww: "warnings_warn m c w = (Return, emit (Warned (find_action (filters w) c) c m) w)"
      by auto
    with Cons.prems WarnStep
    have "run_steps pre (emit (Warned (find_action (filters w) c) c m) w) = (Return, w'')" by simp
    from Cons.IH [OF this] ww WarnStep show ?thesis by simp
  next
    case (RaiseStep e)
    with Cons.prems show ?thesis by simp
  qed
qed

lemma run_steps_trace:
  "e \<in> set (trace (snd (run_steps ss w))) \<Longrightarrow>
     e \<in> set (trace w)
     \<or> (\<exists>c m. e = Warned (find_action (filters w) c) c m \<and> find_action (filters w) c \<noteq> ActError)"
proof (induction ss arbitrary: w)
  case Nil
  then show ?case by simp
next
  case (Cons s ss)
  show ?case
  proof (cases s)
    case (WarnStep c m)
    from warnings_warn_cases [of w c m] show ?thesis
    proof
      assume "find_action (filters w) c = ActError \<and> warnings_warn m c w = (Raise (WarningRaised c m), w)"
      with Cons.prems WarnStep show ?thesis by simp
    next
      assume a: "find_action (filters w) c \<noteq> ActError
        \<and> warnings_warn m c w = (Return, emit (Warned (find_action (filters w) c) c m) w)"
      with Cons.prems WarnStep
      have "e \<in> set (trace (snd (run_steps ss (emit (Warned (find_action (filters w) c) c m) w))))"
        by simp
      from Cons.IH [OF this] a show ?thesis by (auto simp: emit_def)
    qed
  next
    case (RaiseStep x)
    with Cons.prems show ?thesis by simp
  qed
qed

lemma run_steps_escalated:
  assumes "\<And>c. issubclass c FrozenFlaskWarning \<Longrightarrow> find_action (filters w) c = ActError"
    and "WarnStep c m \<in> set ss" and "issubclass c FrozenFlaskWarning"
  shows "\<exists>e. fst (run_steps ss w) = Raise e"
  using assms
proof (induction ss arbitrary: w)
  case Nil
  then show ?case by simp
next
  case (Cons s ss)
  show ?case
  proof (cases s)
    case (WarnStep c' m')
    from warnings_warn_cases [of w c' m'] show ?thesis
    proof
      assume "find_action (filters w) c' = ActError \<and> warnings_warn m' c' w = (Raise (WarningRaised c' m'), w)"
      with WarnStep show ?thesis by simp
    next
      assume a: "find_action (filters w) c' \<noteq> ActError
        \<and> warnings_warn m' c' w = (Return, emit (Warned (find_action (filters w) c') c' m') w)"
      with Cons.prems(1,3) have "c' \<noteq> c" by auto
      with Cons.prems(2) WarnStep have mem: "WarnStep c m \<in> set ss" by auto
      have "\<exists>e. fst (run_steps ss (emit (Warned (find_action (filters w) c') c' m') w)) = Raise e"
        by (rule Cons.IH [OF _ mem Cons.prems(3)]) (simp add: emit_def Cons.prems(1))
      with a WarnStep show ?thesis by simp
    qed
  next
    case (RaiseStep x)
    then show ?thesis by simp
  qed
qed

lemma freeze_configure_Inr:
  assumes "freeze_configure env self p b w = Inr w'"
  shows "filters w' = (ActError, FrozenFlaskWarning) # remove1 (ActError, FrozenFlaskWarning) (filters w)
         \<and> routes w' = routes w \<and> trace w' = trace w @ [Stdout ''Generating HTML...'']"
  using assms
  by (auto simp: freeze_configure_def Let_def config_set_def emit_def filterwarnings_def
      add_filter_def split: sum.splits if_splits)

lemma freeze_configure_Inl:
  assumes "freeze_configure env self p b w = Inl (e, w')"
  shows "filters w' = filters w \<and> routes w' = routes w \<and> trace w' = trace w"
  using assms
  by (auto simp: freeze_configure_def Let_def config_set_def split: sum.splits if_splits)

lemma freeze_configure_rejects:
  assumes "truthy (py_or (py_or b (self_base_url self)) (config_get w ''FREEZER_BASE_URL''))"
    and "urlparse_netloc env (py_or (py_or b (self_base_url self))
                                    (config_get w ''FREEZER_BASE_URL'')) = Inl m"
  shows "freeze_configure env self p b w
           = Inl (ValueError m,
                  config_set ''FREEZER_DESTINATION''
                    (py_or p (config_get w ''FREEZER_DESTINATION''))
                    (config_set ''FREEZER_BASE_URL''
                       (py_or (py_or b (self_base_url self)) (config_get w ''FREEZER_BASE_URL''))
                       w))"
  using assms by (simp add: freeze_configure_def Let_def config_get_set)

lemma freeze_configure_reaches:
  assumes "truthy (py_or (py_or b (self_base_url self)) (config_get w ''FREEZER_BASE_URL''))"
    and "truthy (py_or p (config_get w ''FREEZER_DESTINATION''))"
    and "urlparse_netloc env (py_or (py_or b (self_base_url self))
                                    (config_get w ''FREEZER_BASE_URL'')) = Inr host"
  shows "\<exists>w'. freeze_configure env self p b w = Inr w'"
  using assms by (simp add: freeze_configure_def Let_def config_get_set)

text \<open>
  Claim C2. With a base URL and a path that are not empty, \<^verbatim>\<open>freeze\<close> either never
  gets to render (the URL parser rejects the base URL, and that \<^verbatim>\<open>ValueError\<close>
  leaves \<^verbatim>\<open>freeze\<close> before anything is printed), or it reaches the freezer in a state
  whose first warnings filter turns \<^verbatim>\<open>FrozenFlaskWarning\<close> into an error, so that
  every warning of that category or of a subclass is raised. A freezer that issues such
  a warning then makes \<^verbatim>\<open>freeze\<close> raise: the call does not return, the first such
  warning that is reached is the exception that leaves \<^verbatim>\<open>freeze\<close>, and no warning
  of the category is merely recorded.
\<close>

theorem freeze_escalates_warnings:
  assumes "truthy (py_or (py_or b (self_base_url self)) (config_get w ''FREEZER_BASE_URL''))"
    and "truthy (py_or p (config_get w ''FREEZER_DESTINATION''))"
  shows "(\<exists>m w1. urlparse_netloc env (py_or (py_or b (self_base_url self))
                                              (config_get w ''FREEZER_BASE_URL'')) = Inl m
            \<and> freeze env self p b w = (Raise (ValueError m), w1) \<and> trace w1 = trace w)
         \<or> (\<exists>w'. freeze_configure env self p b w = Inr w'
           \<and> freeze env self p b w = freezer_freeze env w'
           \<and> hd (filters w') = (ActError, FrozenFlaskWarning)
           \<and> (\<forall>c. issubclass c FrozenFlaskWarning \<longrightarrow> find_action (filters w') c = ActError)
           \<and> (\<forall>c m. WarnStep c m \<in> set (renderer env (config w') (routes w'))
                      \<and> issubclass c FrozenFlaskWarning
                 \<longrightarrow> (\<exists>e. fst (freeze env self p b w) = Raise e))
           \<and> (\<forall>pre c m post w''.
                 renderer env (config w') (routes w') = pre @ WarnStep c m # post
                 \<and> issubclass c FrozenFlaskWarning
                 \<and> run_steps pre (emit (FreezerFreeze (routes w')) w') = (Return, w'')
                 \<longrightarrow> freeze env self p b w = (Raise (WarningRaised c m), w''))
           \<and> (\<forall>a c m. Warned a c m \<in> set (trace (snd (freeze env self p b w)))
                        \<and> issubclass c FrozenFlaskWarning
                 \<longrightarrow> Warned a c m \<in> set (trace w)))"
proof (cases "urlparse_netloc env (py_or (py_or b (self_base_url self))
                                          (config_get w ''FREEZER_BASE_URL''))")
  case (Inl m)
  from freeze_configure_rejects [OF assms(1) Inl, of p] Inl show ?thesis
    by (simp add: freeze_def trace_config_set)
next
  case (Inr host)
  from freeze_configure_reaches [OF assms Inr] obtain w' where
    fc: "freeze_configure env self p b w = Inr w'" ..
  note fr = freeze_configure_Inr [OF fc]
  have ff: "freeze env self p b w = freezer_freeze env w'"
    using fc by (simp add: freeze_def)
  have esc: "find_action (filters w') c = ActError" if "issubclass c FrozenFlaskWarning" for c
    using that fr by simp
  let ?w0 = "emit (FreezerFreeze (routes w')) w'"
  have esc0: "find_action (filters ?w0) c = ActError" if "issubclass c FrozenFlaskWarning" for c
    using esc [OF that] by (simp add: emit_def)
  have a: "\<exists>e. fst (freeze env self p b w) = Raise e"
    if "WarnStep c m \<in> set (renderer env (config w') (routes w'))"
      and "issubclass c FrozenFlaskWarning" for c m
    using run_steps_escalated [of ?w0 c m, OF esc0 that] by (simp add: ff freezer_freeze_def)
  have b: "freeze env self p b w = (Raise (WarningRaised c m), w'')"
    if r: "renderer env (config w') (routes w') = pre @ WarnStep c m # post"
      and c: "issubclass c FrozenFlaskWarning"
      and pre: "run_steps pre ?w0 = (Return, w'')" for pre c m post w''
  proof -
    from run_steps_frame [OF pre] have "filters w'' = filters w'" by (simp add: emit_def)
    with esc [OF c] have "find_action (filters w'') c = ActError" by simp
    then have "run_steps (WarnStep c m # post) w'' = (Raise (WarningRaised c m), w'')"
      by (simp add: warnings_warn_def)
    with run_steps_append [OF pre, of "WarnStep c m # post"] r show ?thesis
      by (simp add: ff freezer_freeze_def)
  qed
  have c: "Warned a c m \<in> set (trace w)"
    if mem: "Warned a c m \<in> set (trace (snd (freeze env self p b w)))"
      and sub: "issubclass c FrozenFlaskWarning" for a c m
  proof -
    from mem have "Warned a c m \<in> set (trace (snd (run_steps (renderer env (config w') (routes w')) ?w0)))"
      by (simp add: ff freezer_freeze_def)
    from run_steps_trace [OF this] esc0 [OF sub] fr show ?thesis
      by (auto simp: emit_def)
  qed
  have "\<exists>w'. freeze_configure env self p b w = Inr w'
           \<and> freeze env self p b w = freezer_freeze env w'
           \<and> hd (filters w') = (ActError, FrozenFlaskWarning)
           \<and> (\<forall>c. issubclass c FrozenFlaskWarning \<longrightarrow> find_action (filters w') c = ActError)
           \<and> (\<forall>c m. WarnStep c m \<in> set (renderer env (config w') (routes w'))
                      \<and> issubclass c FrozenFlaskWarning
                 \<longrightarrow> (\<exists>e. fst (freeze env self p b w) = Raise e))
           \<and> (\<forall>pre c m post w''.
                 renderer env (config w') (routes w') = pre @ WarnStep c m # post
                 \<and> issubclass c FrozenFlaskWarning
                 \<and> run_steps pre (emit (FreezerFreeze (routes w')) w') = (Return, w'')
                 \<longrightarrow> freeze env self p b w = (Raise (WarningRaised c m), w''))
           \<and> (\<forall>a c m. Warned a c m \<in> set (trace (snd (freeze env self p b w)))
                        \<and> issubclass c FrozenFlaskWarning
                 \<longrightarrow> Warned a c m \<in> set (trace w))"
    using fc ff fr esc a b c by (intro exI [of _ w']) (simp, blast)
  then show ?thesis ..
qed

text \<open>
  Claim C3. When \<^verbatim>\<open>freeze\<close> raises a \<^verbatim>\<open>FrozenFlaskWarning\<close> (or a subclass),
  \<^verbatim>\<open>freeze_fail_exit\<close> prints \<^verbatim>\<open>Error:\<close> and the warning's message to the error
  stream and raises \<^verbatim>\<open>SystemExit(1)\<close>: the process ends with status 1.
\<close>

theorem freeze_fail_exit_on_warning:
  assumes "freeze env self p b w = (Raise (WarningRaised c msg), w')"
    and "issubclass c FrozenFlaskWarning"
  shows "freeze_fail_exit env self p b w
           = (Raise (SystemExit 1), emit (Stderr (''Error: '' @ msg)) w')
         \<and> exit_status (fst (freeze_fail_exit env self p b w)) = 1"
  using assms by (simp add: freeze_fail_exit_def)

subsection \<open>Traces of the methods and commands\<close>

lemma deploy_push_None:
  "deploy_push None w
     = (Inr True, emit (Warned ActAlways DeprecationWarning deprecation_msg)
                       (simplefilter ActAlways w))"
  by (simp add: deploy_push_def warnings_warn_def simplefilter_def add_filter_def)

lemma deploy_push_Some: "deploy_push (Some b) w = (Inr b, w)"
  by (simp add: deploy_push_def)

lemma freezer_freeze_trace:
  assumes "\<And>c. issubclass c FrozenFlaskWarning \<Longrightarrow> find_action (filters w) c = ActError"
    and "e \<in> set (trace (snd (freezer_freeze env w)))"
  shows "e \<in> set (trace w) \<or> freeze_event (routes w) e"
proof -
  from assms(2) have "e \<in> set (trace (snd (run_steps (renderer env (config w) (routes w))
                                              (emit (FreezerFreeze (routes w)) w))))"
    by (simp add: freezer_freeze_def)
  from run_steps_trace [OF this] assms(1) show ?thesis
    by (auto simp: emit_def)
qed

lemma freeze_trace:
  assumes "e \<in> set (trace (snd (freeze env self p b w)))"
  shows "e \<in> set (trace w) \<or> freeze_event (routes w) e"
proof (cases "freeze_configure env self p b w")
  case (Inl a)
  obtain x w' where a: "a = (x, w')" by (cases a)
  from freeze_configure_Inl [of env self p b w x w'] Inl a assms show ?thesis
    by (simp add: freeze_def)
next
  case (Inr w')
  note fr = freeze_configure_Inr [OF Inr]
  from assms Inr have "e \<in> set (trace (snd (freezer_freeze env w')))" by (simp add: freeze_def)
  from freezer_freeze_trace [OF _ this] fr show ?thesis by auto
qed

lemma freeze_routes: "routes (snd (freeze env self p b w)) = routes w"
proof (cases "freeze_configure env self p b w")
  case (Inl a)
  obtain x w' where a: "a = (x, w')" by (cases a)
  from freeze_configure_Inl [of env self p b w x w'] Inl a show ?thesis
    by (simp add: freeze_def)
next
  case (Inr w')
  obtain r w'' where ff: "freezer_freeze env w' = (r, w'')" by (cases "freezer_freeze env w'")
  from freezer_freeze_frame [OF ff] freeze_configure_Inr [OF Inr] Inr ff show ?thesis
    by (simp add: freeze_def)
qed

lemma freeze_fail_exit_cases:
  "freeze_fail_exit env self p b w = freeze env self p b w
   \<or> (\<exists>m. freeze_fail_exit env self p b w
            = (Raise (SystemExit 1), emit (Stderr m) (snd (freeze env self p b w))))"
  by (auto simp: freeze_fail_exit_def split: prod.splits outcome.splits exc.splits)

lemma freeze_fail_exit_trace:
  assumes "e \<in> set (trace (snd (freeze_fail_exit env self p b w)))"
  shows "e \<in> set (trace w) \<or> freeze_event (routes w) e"
  using freeze_fail_exit_cases [of env self p b w] assms freeze_trace [of e env self p b w]
  by (auto simp: emit_def)

lemma freeze_fail_exit_routes: "routes (snd (freeze_fail_exit env self p b w)) = routes w"
  using freeze_fail_exit_cases [of env self p b w] freeze_routes [of env self p b w]
  by (auto simp: emit_def)

lemma deployment_deploy_trace:
  assumes "e \<in> set (trace (snd (deployment_deploy env p r pu se w)))"
  shows "e \<in> set (trace w) \<or> publisher_event p r pu se e"
  using assms
  by (auto simp: deployment_deploy_def Let_def emit_def split: if_splits option.splits)

lemma deployment_deploy_routes: "routes (snd (deployment_deploy env p r pu se w)) = routes w"
  by (simp add: deployment_deploy_def Let_def emit_def split: option.splits)

lemma deploy_freeze_trace:
  assumes "e \<in> set (trace (snd (deploy_freeze env self ff cf p b w)))"
  shows "e \<in> set (trace w)
         \<or> freeze_event (if cf then routes w @ [(''/CNAME'', CnameView)] else routes w) e"
  using assms freeze_fail_exit_trace [of e env self p b "inject_cname w"]
    freeze_fail_exit_trace [of e env self p b w]
  by (auto simp: deploy_freeze_def Let_def inject_cname_def split: if_splits)

lemma deploy_freeze_routes:
  "routes (snd (deploy_freeze env self ff cf p b w)) = routes w
   \<or> routes (snd (deploy_freeze env self ff cf p b w)) = routes w @ [(''/CNAME'', CnameView)]"
  by (simp add: deploy_freeze_def Let_def inject_cname_def freeze_fail_exit_routes)

lemma deploy_push_eq:
  "deploy_push po w =
     (Inr (case po of None \<Rightarrow> True | Some b \<Rightarrow> b),
      case po of None \<Rightarrow>
        emit (Warned ActAlways DeprecationWarning deprecation_msg) (simplefilter ActAlways w)
      | Some b \<Rightarrow> w)"
  by (cases po) (simp_all add: deploy_push_None deploy_push_Some)

lemma outcome_case_pair:
  "(case r of (Return, w2) \<Rightarrow> f w2 | (Raise e, w2) \<Rightarrow> (Raise e, w2))
     = (case fst r of Return \<Rightarrow> f (snd r) | Raise e \<Rightarrow> r)"
  by (cases r; cases "fst r") auto

lemma cli_deploy_unfold:
  "cli_deploy env self args w =
     (let w1 = (case dp_push args of None \<Rightarrow>
                  emit (Warned ActAlways DeprecationWarning deprecation_msg) (simplefilter ActAlways w)
                | Some b \<Rightarrow> w);
          r = deploy_freeze env self (case dp_freeze args of None \<Rightarrow> True | Some b \<Rightarrow> b)
                (cname_option (dp_cname args)) (path_option env (dp_path args))
                (base_url_option self (dp_base_url args)) w1
      in case fst r of
           Raise e \<Rightarrow> r
         | Return \<Rightarrow>
             deployment_deploy env (path_option env (dp_path args))
               (case dp_remote args of None \<Rightarrow> DEFAULT_REMOTE | Some r \<Rightarrow> r)
               (case dp_push args of None \<Rightarrow> True | Some b \<Rightarrow> b)
               (dp_show_git_push_stderr args) (snd r))"
  by (simp add: cli_deploy_def Let_def deploy_push_eq outcome_case_pair)

lemma cli_deploy_trace:
  assumes "e \<in> set (trace (snd (cli_deploy env self args w)))"
  shows "e \<in> set (trace w)
         \<or> e = Warned ActAlways DeprecationWarning deprecation_msg
         \<or> freeze_event (if cname_option (dp_cname args)
                          then routes w @ [(''/CNAME'', CnameView)] else routes w) e
         \<or> publisher_event (path_option env (dp_path args))
              (case dp_remote args of None \<Rightarrow> DEFAULT_REMOTE | Some r \<Rightarrow> r)
              (case dp_push args of None \<Rightarrow> True | Some b \<Rightarrow> b)
              (dp_show_git_push_stderr args) e"
proof -
  define w1 where "w1 = (case dp_push args of None \<Rightarrow>
                  emit (Warned ActAlways DeprecationWarning deprecation_msg) (simplefilter ActAlways w)
                | Some b \<Rightarrow> w)"
  define r where "r = deploy_freeze env self (case dp_freeze args of None \<Rightarrow> True | Some b \<Rightarrow> b)
                (cname_option (dp_cname args)) (path_option env (dp_path args))
                (base_url_option self (dp_base_url args)) w1"
  have w1: "routes w1 = routes w"
    "x \<in> set (trace w1) \<Longrightarrow> x \<in> set (trace w) \<or> x = Warned ActAlways DeprecationWarning deprecation_msg" for x
    by (auto simp: w1_def emit_def simplefilter_def add_filter_def split: option.splits)
  have r: "x \<in> set (trace w1)
      \<or> freeze_event (if cname_option (dp_cname args)
                          then routes w @ [(''/CNAME'', CnameView)] else routes w) x"
    if "x \<in> set (trace (snd r))" for x
    using deploy_freeze_trace [OF that [unfolded r_def]] w1(1) by (auto split: if_splits)
  have "e \<in> set (trace (snd r)) \<or> publisher_event (path_option env (dp_path args))
              (case dp_remote args of None \<Rightarrow> DEFAULT_REMOTE | Some r \<Rightarrow> r)
              (case dp_push args of None \<Rightarrow> True | Some b \<Rightarrow> b)
              (dp_show_git_push_stderr args) e"
    using assms deployment_deploy_trace [of e env "path_option env (dp_path args)" _ _ _ "snd r"]
    by (auto simp: cli_deploy_unfold w1_def [symmetric] r_def [symmetric] Let_def
        split: outcome.splits)
  with r [of e] w1(2) [of e] show ?thesis by blast
qed

lemma run_steps_trace_mono: "set (trace w) \<subseteq> set (trace (snd (run_steps ss w)))"
proof (induction ss arbitrary: w)
  case Nil
  then show ?case by simp
next
  case (Cons s ss)
  show ?case
  proof (cases s)
    case (WarnStep c m)
    from warnings_warn_cases [of w c m] show ?thesis
    proof
      assume "find_action (filters w) c = ActError
        \<and> warnings_warn m c w = (Raise (WarningRaised c m), w)"
      with WarnStep show ?thesis by simp
    next
      assume a: "find_action (filters w) c \<noteq> ActError
        \<and> warnings_warn m c w = (Return, emit (Warned (find_action (filters w) c) c m) w)"
      have "set (trace w) \<subseteq> set (trace (emit (Warned (find_action (filters w) c) c m) w))"
        by (auto simp: emit_def)
      also note Cons.IH [of "emit (Warned (find_action (filters w) c) c m) w"]
      finally show ?thesis using a WarnStep by simp
    qed
  next
    case (RaiseStep x)
    then show ?thesis by simp
  qed
qed

lemma freeze_trace_mono: "set (trace w) \<subseteq> set (trace (snd (freeze env self p b w)))"
proof (cases "freeze_configure env self p b w")
  case (Inl a)
  obtain x w' where a: "a = (x, w')" by (cases a)
  from freeze_configure_Inl [of env self p b w x w'] Inl a show ?thesis
    by (simp add: freeze_def)
next
  case (Inr w')
  from freeze_configure_Inr [OF Inr] have "set (trace w) \<subseteq> set (trace w')" by auto
  also have "\<dots> \<subseteq> set (trace (emit (FreezerFreeze (routes w')) w'))"
    by (auto simp: emit_def)
  also note run_steps_trace_mono
  finally show ?thesis using Inr by (simp add: freeze_def freezer_freeze_def)
qed

lemma freeze_fail_exit_trace_mono:
  "set (trace w) \<subseteq> set (trace (snd (freeze_fail_exit env self p b w)))"
  using freeze_fail_exit_cases [of env self p b w] freeze_trace_mono [of w env self p b]
  by (auto simp: emit_def)

lemma deploy_freeze_trace_mono:
  "set (trace w) \<subseteq> set (trace (snd (deploy_freeze env self ff cf p b w)))"
  using freeze_fail_exit_trace_mono [of "inject_cname w" env self p b]
    freeze_fail_exit_trace_mono [of w env self p b]
  by (auto simp: deploy_freeze_def Let_def inject_cname_def)

lemma deployment_deploy_trace_mono:
  "set (trace w) \<subseteq> set (trace (snd (deployment_deploy env p r pu se w)))"
  by (auto simp: deployment_deploy_def Let_def emit_def split: option.splits)

lemma deployment_deploy_called:
  "PublisherCalled p r pu se \<in> set (trace (snd (deployment_deploy env p r pu se w)))"
  by (auto simp: deployment_deploy_def Let_def emit_def split: option.splits)

lemma deployment_deploy_push_fails:
  assumes "tree_valid env p" and "git_push env r = Some err"
  shows "trace (snd (deployment_deploy env p r True se w))
           = trace w @ [PublisherCalled p r True se, Committed p]
               @ (if se then [GitPushStderr err] else [])"
  using assms by (simp add: deployment_deploy_def Let_def emit_def)

lemma cli_deploy_publishes:
  assumes "deploy_freeze env self (case dp_freeze args of None \<Rightarrow> True | Some b \<Rightarrow> b)
             (cname_option (dp_cname args)) (path_option env (dp_path args))
             (base_url_option self (dp_base_url args))
             (case dp_push args of
                None \<Rightarrow> emit (Warned ActAlways DeprecationWarning deprecation_msg)
                             (simplefilter ActAlways w)
              | Some b \<Rightarrow> w) = (Return, w2)"
  shows "cli_deploy env self args w
           = deployment_deploy env (path_option env (dp_path args))
               (case dp_remote args of None \<Rightarrow> DEFAULT_REMOTE | Some r \<Rightarrow> r)
               (case dp_push args of None \<Rightarrow> True | Some b \<Rightarrow> b)
               (dp_show_git_push_stderr args) w2"
  using assms by (simp add: cli_deploy_unfold Let_def)

subsection \<open>The publisher's diagnostics\<close>

text \<open>
  Claim C7. \<^verbatim>\<open>show_err\<close> is false when it is not given: \<^verbatim>\<open>Elsa.deploy\<close> without
  the keyword is \<^verbatim>\<open>Elsa.deploy\<close> with \<^verbatim>\<open>show_err=False\<close>, and neither it nor the
  command \<^verbatim>\<open>deploy\<close> without \<^verbatim>\<open>--show-git-push-stderr\<close> puts the push tool's
  diagnostic output on the error stream. The flag controls just that, in the publisher
  and through both callers: when the tree exists and the push fails with the diagnostic
  \<open>err\<close>, the publisher, \<^verbatim>\<open>Elsa.deploy\<close> with \<^verbatim>\<open>push=True\<close>, and the command
  \<^verbatim>\<open>deploy\<close> (whose freeze, if any, has returned in state \<open>wr\<close>, and which was not
  run with \<^verbatim>\<open>--no-push\<close>) each record the call of the publisher with the flag they
  were given and the commit, and then show \<open>err\<close> exactly when the flag is set.
\<close>

theorem show_err_default:
  "deploy env self (kw\<lparr>kw_show_err := None\<rparr>) w = deploy env self (kw\<lparr>kw_show_err := Some False\<rparr>) w
   \<and> (\<forall>err. GitPushStderr err \<in> set (trace (snd (deploy env self (kw\<lparr>kw_show_err := None\<rparr>) w)))
         \<longrightarrow> GitPushStderr err \<in> set (trace w))
   \<and> (\<not> dp_show_git_push_stderr args
        \<longrightarrow> (\<forall>err. GitPushStderr err \<in> set (trace (snd (cli_deploy env self args w)))
               \<longrightarrow> GitPushStderr err \<in> set (trace w)))
   \<and> (tree_valid env path \<and> git_push env remote = Some err
        \<longrightarrow> trace (snd (deployment_deploy env path remote True show_err w))
            = trace w @ [PublisherCalled path remote True show_err, Committed path]
                @ (if show_err then [GitPushStderr err] else []))
   \<and> (kw_push kw = Some True
        \<and> py_or (kw_remote kw) (PyStr DEFAULT_REMOTE) = PyStr remote
        \<and> tree_valid env (py_or (kw_path kw) (config_get w ''FREEZER_DESTINATION''))
        \<and> git_push env remote = Some err
        \<longrightarrow> trace (snd (deploy env self kw w))
            = trace w
                @ [PublisherCalled (py_or (kw_path kw) (config_get w ''FREEZER_DESTINATION''))
                     remote True (kw_show_err kw = Some True),
                   Committed (py_or (kw_path kw) (config_get w ''FREEZER_DESTINATION''))]
                @ (if kw_show_err kw = Some True then [GitPushStderr err] else []))
   \<and> (dp_push args \<noteq> Some False
        \<and> deploy_freeze env self (case dp_freeze args of None \<Rightarrow> True | Some b \<Rightarrow> b)
             (cname_option (dp_cname args)) (path_option env (dp_path args))
             (base_url_option self (dp_base_url args))
             (case dp_push args of
                None \<Rightarrow> emit (Warned ActAlways DeprecationWarning deprecation_msg)
                             (simplefilter ActAlways w)
              | Some b \<Rightarrow> w) = (Return, wr)
        \<and> tree_valid env (path_option env (dp_path args))
        \<and> git_push env (case dp_remote args of None \<Rightarrow> DEFAULT_REMOTE | Some r \<Rightarrow> r) = Some err
        \<longrightarrow> trace (snd (cli_deploy env self args w))
            = trace wr
                @ [PublisherCalled (path_option env (dp_path args))
                     (case dp_remote args of None \<Rightarrow> DEFAULT_REMOTE | Some r \<Rightarrow> r)
                     True (dp_show_git_push_stderr args),
                   Committed (path_option env (dp_path args))]
                @ (if dp_show_git_push_stderr args then [GitPushStderr err] else []))"
proof -
  have a: "deploy env self (kw\<lparr>kw_show_err := None\<rparr>) w = deploy env self (kw\<lparr>kw_show_err := Some False\<rparr>) w"
    by (simp add: deploy_def)
  have b: "GitPushStderr x \<in> set (trace w)"
    if "GitPushStderr x \<in> set (trace (snd (deploy env self (kw\<lparr>kw_show_err := None\<rparr>) w)))" for x
    using that deployment_deploy_trace [of "GitPushStderr x" env _ _ _ False w]
    by (auto simp: deploy_def Let_def)
  have c: "GitPushStderr x \<in> set (trace w)"
    if "\<not> dp_show_git_push_stderr args"
      and "GitPushStderr x \<in> set (trace (snd (cli_deploy env self args w)))" for x
    using cli_deploy_trace [OF that(2)] that(1) by (auto simp: deprecation_msg_def)
  have d: "trace (snd (deployment_deploy env path remote True show_err w))
            = trace w @ [PublisherCalled path remote True show_err, Committed path]
                @ (if show_err then [GitPushStderr err] else [])"
    if "tree_valid env path" and "git_push env remote = Some err"
    using that by (rule deployment_deploy_push_fails)
  have e: "trace (snd (deploy env self kw w))
            = trace w
                @ [PublisherCalled (py_or (kw_path kw) (config_get w ''FREEZER_DESTINATION''))
                     remote True (kw_show_err kw = Some True),
                   Committed (py_or (kw_path kw) (config_get w ''FREEZER_DESTINATION''))]
                @ (if kw_show_err kw = Some True then [GitPushStderr err] else [])"
    if "kw_push kw = Some True"
      and "py_or (kw_remote kw) (PyStr DEFAULT_REMOTE) = PyStr remote"
      and "tree_valid env (py_or (kw_path kw) (config_get w ''FREEZER_DESTINATION''))"
      and "git_push env remote = Some err"
  proof -
    have se: "(case kw_show_err kw of None \<Rightarrow> False | Some b \<Rightarrow> b) = (kw_show_err kw = Some True)"
      by (cases "kw_show_err kw") auto
    from that(1,2) have "deploy env self kw w
        = deployment_deploy env (py_or (kw_path kw) (config_get w ''FREEZER_DESTINATION''))
            remote True (kw_show_err kw = Some True) w"
      by (simp add: deploy_def Let_def se)
    with deployment_deploy_push_fails [OF that(3,4)] show ?thesis by simp
  qed
  have f: "trace (snd (cli_deploy env self args w))
            = trace wr
                @ [PublisherCalled (path_option env (dp_path args))
                     (case dp_remote args of None \<Rightarrow> DEFAULT_REMOTE | Some r \<Rightarrow> r)
                     True (dp_show_git_push_stderr args),
                   Committed (path_option env (dp_path args))]
                @ (if dp_show_git_push_stderr args then [GitPushStderr err] else [])"
    if "dp_push args \<noteq> Some False"
      and "deploy_freeze env self (case dp_freeze args of None \<Rightarrow> True | Some b \<Rightarrow> b)
             (cname_option (dp_cname args)) (path_option env (dp_path args))
             (base_url_option self (dp_base_url args))
             (case dp_push args of
                None \<Rightarrow> emit (Warned ActAlways DeprecationWarning deprecation_msg)
                             (simplefilter ActAlways w)
              | Some b \<Rightarrow> w) = (Return, wr)"
      and "tree_valid env (path_option env (dp_path args))"
      and "git_push env (case dp_remote args of None \<Rightarrow> DEFAULT_REMOTE | Some r \<Rightarrow> r) = Some err"
  proof -
    from that(1) have pu: "(case dp_push args of None \<Rightarrow> True | Some b \<Rightarrow> b) = True"
      by (cases "dp_push args") auto
    from cli_deploy_publishes [OF that(2)] pu deployment_deploy_push_fails [OF that(3,4)]
    show ?thesis by simp
  qed
  from a b c d e f show ?thesis by blast
qed

subsection \<open>The shutdown endpoint\<close>

lemma freeze_event_safe:
  "freeze_event rs e \<Longrightarrow> ShutdownView \<notin> snd ` set rs \<Longrightarrow> \<not> exposes_shutdown e"
  by (cases e) auto

lemma publisher_event_safe: "publisher_event p r pu se e \<Longrightarrow> \<not> exposes_shutdown e"
  by (cases e) auto

lemma shutdown_free_step:
  assumes "shutdown_free w"
    and "routes w' = routes w \<or> routes w' = routes w @ [(''/CNAME'', CnameView)]"
    and "\<And>e. e \<in> set (trace w') \<Longrightarrow> e \<in> set (trace w) \<or> \<not> exposes_shutdown e"
  shows "shutdown_free w'"
  using assms by (auto simp: shutdown_free_def shutdown_attached_def list_ex_iff)

lemma cli_freeze_routes:
  "routes (snd (cli_freeze env self fa w))
     = (if cname_option (fz_cname fa) then routes w @ [(''/CNAME'', CnameView)] else routes w)"
proof -
  have "routes (snd (case r of (Raise e, w2) \<Rightarrow> (Raise e, w2)
                     | (Return, w2) \<Rightarrow> if sf then serve env self (Some port) w2 else (Return, w2)))
          = routes (snd r)" for r sf port
    by (cases r; cases "fst r") (auto simp: serve_def freezer_serve_def emit_def)
  then show ?thesis
    by (simp add: cli_freeze_def Let_def freeze_fail_exit_routes inject_cname_def)
qed

lemma cli_freeze_trace:
  assumes "e \<in> set (trace (snd (cli_freeze env self fa w)))"
  shows "e \<in> set (trace w)
         \<or> freeze_event (if cname_option (fz_cname fa)
                          then routes w @ [(''/CNAME'', CnameView)] else routes w) e
         \<or> e = FreezerServe (port_option (fz_port fa))"
proof -
  define w1 where "w1 = (if cname_option (fz_cname fa) then inject_cname w else w)"
  have w1: "trace w1 = trace w"
    "routes w1 = (if cname_option (fz_cname fa) then routes w @ [(''/CNAME'', CnameView)] else routes w)"
    by (simp_all add: w1_def inject_cname_def)
  define r where "r = freeze_fail_exit env self (path_option env (fz_path fa))
                        (base_url_option self (fz_base_url fa)) w1"
  have r: "x \<in> set (trace w) \<or> freeze_event (routes w1) x" if "x \<in> set (trace (snd r))" for x
    using freeze_fail_exit_trace [OF that [unfolded r_def]] w1(1) by simp
  have "e \<in> set (trace w1) \<or> e \<in> set (trace (snd r)) \<or> e = FreezerServe (port_option (fz_port fa))"
    using assms
    by (cases r; cases "fst r")
      (auto simp: cli_freeze_def Let_def w1_def [symmetric] r_def [symmetric] serve_def
        freezer_serve_def emit_def split: if_splits)
  with r [of e] w1 show ?thesis by auto
qed

lemma cli_deploy_routes:
  "routes (snd (cli_deploy env self da w)) = routes w
   \<or> routes (snd (cli_deploy env self da w)) = routes w @ [(''/CNAME'', CnameView)]"
proof -
  define w1 where "w1 = (case dp_push da of None \<Rightarrow>
                  emit (Warned ActAlways DeprecationWarning deprecation_msg) (simplefilter ActAlways w)
                | Some b \<Rightarrow> w)"
  have w1: "routes w1 = routes w"
    by (auto simp: w1_def emit_def simplefilter_def add_filter_def split: option.splits)
  define r where "r = deploy_freeze env self (case dp_freeze da of None \<Rightarrow> True | Some b \<Rightarrow> b)
                (cname_option (dp_cname da)) (path_option env (dp_path da))
                (base_url_option self (dp_base_url da)) w1"
  have "routes (snd (cli_deploy env self da w)) = routes (snd r)"
    by (cases "fst r")
      (simp_all add: cli_deploy_unfold Let_def w1_def [symmetric] r_def [symmetric]
        deployment_deploy_routes)
  with deploy_freeze_routes [of env self _ "cname_option (dp_cname da)" _ _ w1] w1 show ?thesis
    unfolding r_def by metis
qed

text \<open>
  Claim C6. The command \<^verbatim>\<open>serve\<close> attaches the shutdown endpoint to the application.
  The commands \<^verbatim>\<open>freeze\<close> and \<^verbatim>\<open>deploy\<close> and the methods \<^verbatim>\<open>freeze\<close>,
  \<^verbatim>\<open>freeze_fail_exit\<close> and \<^verbatim>\<open>deploy\<close> never do: from a state that is free of the
  endpoint they lead to a state that is free of it, in which no freezer was asked to
  freeze an application that had the endpoint.
\<close>

theorem shutdown_only_by_serve:
  "shutdown_attached (snd (cli_serve env self sa w))
   \<and> (shutdown_free w \<longrightarrow>
        shutdown_free (snd (cli_freeze env self fa w))
        \<and> shutdown_free (snd (cli_deploy env self da w))
        \<and> shutdown_free (snd (freeze env self p b w))
        \<and> shutdown_free (snd (freeze_fail_exit env self p b w))
        \<and> shutdown_free (snd (deploy env self kw w)))"
proof -
  have serve: "shutdown_attached (snd (cli_serve env self sa w))"
    by (simp add: cli_serve_def Let_def app_run_def emit_def inject_shutdown_def
        inject_cname_def shutdown_attached_def)
  have rest: "shutdown_free (snd (cli_freeze env self fa w))
        \<and> shutdown_free (snd (cli_deploy env self da w))
        \<and> shutdown_free (snd (freeze env self p b w))
        \<and> shutdown_free (snd (freeze_fail_exit env self p b w))
        \<and> shutdown_free (snd (deploy env self kw w))" if sf: "shutdown_free w"
  proof -
    from sf have nr: "ShutdownView \<notin> snd ` set (routes w)"
      by (auto simp: shutdown_free_def shutdown_attached_def)
    then have nc: "ShutdownView \<notin> snd ` set (routes w @ [(''/CNAME'', CnameView)])"
      by auto
    note fe = freeze_event_safe [OF _ nr] freeze_event_safe [OF _ nc]
    have a: "shutdown_free (snd (cli_freeze env self fa w))"
    proof (rule shutdown_free_step [OF sf])
      show "routes (snd (cli_freeze env self fa w)) = routes w
            \<or> routes (snd (cli_freeze env self fa w)) = routes w @ [(''/CNAME'', CnameView)]"
        by (simp add: cli_freeze_routes)
    next
      fix e assume "e \<in> set (trace (snd (cli_freeze env self fa w)))"
      from cli_freeze_trace [OF this] show "e \<in> set (trace w) \<or> \<not> exposes_shutdown e"
        using fe [of e] by (cases "cname_option (fz_cname fa)") auto
    qed
    have b: "shutdown_free (snd (cli_deploy env self da w))"
    proof (rule shutdown_free_step [OF sf])
      show "routes (snd (cli_deploy env self da w)) = routes w
            \<or> routes (snd (cli_deploy env self da w)) = routes w @ [(''/CNAME'', CnameView)]"
        by (rule cli_deploy_routes)
    next
      fix e assume "e \<in> set (trace (snd (cli_deploy env self da w)))"
      from cli_deploy_trace [OF this] show "e \<in> set (trace w) \<or> \<not> exposes_shutdown e"
        using fe [of e] publisher_event_safe [of _ _ _ _ e]
        by (cases "cname_option (dp_cname da)") auto
    qed
    have c: "shutdown_free (snd (freeze env self p b w))"
    proof (rule shutdown_free_step [OF sf])
      show "routes (snd (freeze env self p b w)) = routes w
            \<or> routes (snd (freeze env self p b w)) = routes w @ [(''/CNAME'', CnameView)]"
        by (simp add: freeze_routes)
    next
      fix e assume "e \<in> set (trace (snd (freeze env self p b w)))"
      from freeze_trace [OF this] show "e \<in> set (trace w) \<or> \<not> exposes_shutdown e"
        using fe [of e] by auto
    qed
    have d: "shutdown_free (snd (freeze_fail_exit env self p b w))"
    proof (rule shutdown_free_step [OF sf])
      show "routes (snd (freeze_fail_exit env self p b w)) = routes w
            \<or> routes (snd (freeze_fail_exit env self p b w)) = routes w @ [(''/CNAME'', CnameView)]"
        by (simp add: freeze_fail_exit_routes)
    next
      fix e assume "e \<in> set (trace (snd (freeze_fail_exit env self p b w)))"
      from freeze_fail_exit_trace [OF this] show "e \<in> set (trace w) \<or> \<not> exposes_shutdown e"
        using fe [of e] by auto
    qed
    have e: "shutdown_free (snd (deploy env self kw w))"
    proof (rule shutdown_free_step [OF sf])
      show "routes (snd (deploy env self kw w)) = routes w
            \<or> routes (snd (deploy env self kw w)) = routes w @ [(''/CNAME'', CnameView)]"
        by (simp add: deploy_def Let_def deployment_deploy_routes)
    next
      fix e assume "e \<in> set (trace (snd (deploy env self kw w)))"
      then show "e \<in> set (trace w) \<or> \<not> exposes_shutdown e"
        by (auto simp: deploy_def Let_def dest!: deployment_deploy_trace publisher_event_safe)
    qed
    from a b c d e show ?thesis by simp
  qed
  from serve rest show ?thesis by simp
qed

subsection \<open>Usage errors and the default of push\<close>

text \<open>
  Claim C8. When the base URL the command line gives (the option \<^verbatim>\<open>--base-url\<close>, or
  the base URL of the instance when the option is absent) is empty, the command
  \<^verbatim>\<open>freeze\<close>, and the command \<^verbatim>\<open>deploy\<close> unless it was run with \<^verbatim>\<open>--no-freeze\<close>,
  raise \<^verbatim>\<open>UsageError\<close>, which ends the process with status 2. The state is then the
  initial one but for the CNAME rule and, for \<^verbatim>\<open>deploy\<close> without \<^verbatim>\<open>--push\<close>, the
  deprecation warning: the configuration was not written and the freezer was not called.
\<close>

theorem cli_requires_base_url:
  "(\<not> truthy (base_url_option self (fz_base_url fa)) \<longrightarrow>
      cli_freeze env self fa w
        = (Raise (UsageError ''No base URL provided, use --base-url''),
           if cname_option (fz_cname fa) then inject_cname w else w))
   \<and> (\<not> truthy (base_url_option self (dp_base_url da)) \<and> dp_freeze da \<noteq> Some False \<longrightarrow>
      cli_deploy env self da w
        = (Raise (UsageError ''No base URL provided, use --base-url''),
           let w1 = (case dp_push da of
                       None \<Rightarrow> emit (Warned ActAlways DeprecationWarning deprecation_msg)
                                    (simplefilter ActAlways w)
                     | Some b \<Rightarrow> w)
           in if cname_option (dp_cname da) then inject_cname w1 else w1))
   \<and> exit_status (Raise (UsageError ''No base URL provided, use --base-url'')) = 2"
proof -
  have a: "cli_freeze env self fa w
        = (Raise (UsageError ''No base URL provided, use --base-url''),
           if cname_option (fz_cname fa) then inject_cname w else w)"
    if "\<not> truthy (base_url_option self (fz_base_url fa))"
    using that by (simp add: cli_freeze_def Let_def)
  have b: "cli_deploy env self da w
        = (Raise (UsageError ''No base URL provided, use --base-url''),
           let w1 = (case dp_push da of
                       None \<Rightarrow> emit (Warned ActAlways DeprecationWarning deprecation_msg)
                                    (simplefilter ActAlways w)
                     | Some b \<Rightarrow> w)
           in if cname_option (dp_cname da) then inject_cname w1 else w1)"
    if "\<not> truthy (base_url_option self (dp_base_url da))" and "dp_freeze da \<noteq> Some False"
  proof -
    from that(2) have "(case dp_freeze da of None \<Rightarrow> True | Some b \<Rightarrow> b) = True"
      by (cases "dp_freeze da") auto
    with that(1) show ?thesis
      by (simp add: cli_deploy_unfold Let_def deploy_freeze_def)
  qed
  from a b show ?thesis by simp
qed

text \<open>
  Claim C5. When \<^verbatim>\<open>--push/--no-push\<close> is not on the command line of \<^verbatim>\<open>deploy\<close>,
  the command issues the deprecation warning under the action \<^verbatim>\<open>always\<close>, sets
  \<^verbatim>\<open>push\<close> to true, and goes on exactly as the command with \<^verbatim>\<open>--push\<close> does from
  the state after the warning: it runs the freeze, if one was asked for, and when that
  returns (at once with \<^verbatim>\<open>--no-freeze\<close>) it is the call of the publisher with
  \<^verbatim>\<open>push=True\<close>. That call is then in the trace, as is the warning, and every call
  of the publisher the command makes has \<^verbatim>\<open>push\<close> true.
\<close>

theorem deploy_push_default:
  assumes "dp_push args = None"
  shows "deploy_push (dp_push args) w
           = (Inr True, emit (Warned ActAlways DeprecationWarning deprecation_msg)
                             (simplefilter ActAlways w))
         \<and> cli_deploy env self args w
           = cli_deploy env self (args\<lparr>dp_push := Some True\<rparr>)
               (emit (Warned ActAlways DeprecationWarning deprecation_msg)
                     (simplefilter ActAlways w))
         \<and> (\<forall>p r pu se. PublisherCalled p r pu se \<in> set (trace (snd (cli_deploy env self args w)))
               \<longrightarrow> pu \<or> PublisherCalled p r pu se \<in> set (trace w))
         \<and> cli_deploy env self args w
           = (case deploy_freeze env self (case dp_freeze args of None \<Rightarrow> True | Some b \<Rightarrow> b)
                     (cname_option (dp_cname args)) (path_option env (dp_path args))
                     (base_url_option self (dp_base_url args))
                     (emit (Warned ActAlways DeprecationWarning deprecation_msg)
                           (simplefilter ActAlways w)) of
                (Raise e, w2) \<Rightarrow> (Raise e, w2)
              | (Return, w2) \<Rightarrow>
                  deployment_deploy env (path_option env (dp_path args))
                    (case dp_remote args of None \<Rightarrow> DEFAULT_REMOTE | Some r \<Rightarrow> r)
                    True (dp_show_git_push_stderr args) w2)
         \<and> (\<forall>w2. deploy_freeze env self (case dp_freeze args of None \<Rightarrow> True | Some b \<Rightarrow> b)
                     (cname_option (dp_cname args)) (path_option env (dp_path args))
                     (base_url_option self (dp_base_url args))
                     (emit (Warned ActAlways DeprecationWarning deprecation_msg)
                           (simplefilter ActAlways w)) = (Return, w2)
               \<longrightarrow> PublisherCalled (path_option env (dp_path args))
                     (case dp_remote args of None \<Rightarrow> DEFAULT_REMOTE | Some r \<Rightarrow> r)
                     True (dp_show_git_push_stderr args)
                   \<in> set (trace (snd (cli_deploy env self args w))))
         \<and> (dp_freeze args = Some False
               \<longrightarrow> cli_deploy env self args w
                   = deployment_deploy env (path_option env (dp_path args))
                       (case dp_remote args of None \<Rightarrow> DEFAULT_REMOTE | Some r \<Rightarrow> r)
                       True (dp_show_git_push_stderr args)
                       (emit (Warned ActAlways DeprecationWarning deprecation_msg)
                             (simplefilter ActAlways w)))
         \<and> Warned ActAlways DeprecationWarning deprecation_msg
             \<in> set (trace (snd (cli_deploy env self args w)))"
proof -
  let ?W = "emit (Warned ActAlways DeprecationWarning deprecation_msg) (simplefilter ActAlways w)"
  let ?r = "deploy_freeze env self (case dp_freeze args of None \<Rightarrow> True | Some b \<Rightarrow> b)
              (cname_option (dp_cname args)) (path_option env (dp_path args))
              (base_url_option self (dp_base_url args)) ?W"
  have c1: "deploy_push (dp_push args) w = (Inr True, ?W)"
    using assms by (simp add: deploy_push_None)
  have c2: "cli_deploy env self args w = cli_deploy env self (args\<lparr>dp_push := Some True\<rparr>) ?W"
    using assms
    by (auto simp: cli_deploy_def deploy_push_None deploy_push_Some Let_def
        split: prod.splits outcome.splits)
  have c3: "pu \<or> PublisherCalled p r pu se \<in> set (trace w)"
    if "PublisherCalled p r pu se \<in> set (trace (snd (cli_deploy env self args w)))" for p r pu se
    using cli_deploy_trace [OF that] assms by auto
  have c4: "cli_deploy env self args w
           = (case ?r of
                (Raise e, w2) \<Rightarrow> (Raise e, w2)
              | (Return, w2) \<Rightarrow>
                  deployment_deploy env (path_option env (dp_path args))
                    (case dp_remote args of None \<Rightarrow> DEFAULT_REMOTE | Some r \<Rightarrow> r)
                    True (dp_show_git_push_stderr args) w2)"
    using assms by (simp add: cli_deploy_def deploy_push_None Let_def)
  have c5: "PublisherCalled (path_option env (dp_path args))
                     (case dp_remote args of None \<Rightarrow> DEFAULT_REMOTE | Some r \<Rightarrow> r)
                     True (dp_show_git_push_stderr args)
                   \<in> set (trace (snd (cli_deploy env self args w)))"
    if "?r = (Return, w2)" for w2
    using that deployment_deploy_called by (simp add: c4)
  have c6: "cli_deploy env self args w
                   = deployment_deploy env (path_option env (dp_path args))
                       (case dp_remote args of None \<Rightarrow> DEFAULT_REMOTE | Some r \<Rightarrow> r)
                       True (dp_show_git_push_stderr args) ?W"
    if "dp_freeze args = Some False"
    using that by (simp add: c4 deploy_freeze_def)
  have inW: "Warned ActAlways DeprecationWarning deprecation_msg \<in> set (trace ?W)"
    by (simp add: emit_def)
  have c7: "Warned ActAlways DeprecationWarning deprecation_msg
             \<in> set (trace (snd (cli_deploy env self args w)))"
  proof (cases ?r)
    case (Pair o1 w2)
    from inW deploy_freeze_trace_mono [of ?W env self _ _ _ _] Pair
    have in2: "Warned ActAlways DeprecationWarning deprecation_msg \<in> set (trace w2)"
      by (metis snd_conv subsetD)
    show ?thesis
    proof (cases o1)
      case Return
      from subsetD [OF deployment_deploy_trace_mono in2]
      have "Warned ActAlways DeprecationWarning deprecation_msg
              \<in> set (trace (snd (deployment_deploy env P R True S w2)))" for P R S .
      with Pair Return show ?thesis by (simp add: c4)
    next
      case (Raise e)
      with Pair in2 show ?thesis by (simp add: c4)
    qed
  qed
  from c1 c2 c3 c4 c5 c6 c7 show ?thesis by blast
qed

subsection \<open>The example application\<close>

lemmas example_defs =
  example_url_def example_elsa_def configured_elsa_def bare_serve_args_def bare_freeze_args_def
  bare_deploy_args_def bare_kwargs_def example_env_def example_world_def broken_world_def
  example_netloc_def drop_scheme_def is_alpha_def is_scheme_char_def example_renderer_def
  Elsa_init_def

lemma example_netloc_url: "example_netloc (PyStr example_url) = Inr ''example.com''"
  by (simp add: example_netloc_def example_url_def drop_scheme_def is_alpha_def
      is_scheme_char_def)

text \<open>The two cases on the example application: nothing configured, and a base URL without a path.\<close>

theorem freeze_config_error_witness:
  "(\<exists>msg w'. freeze example_env example_elsa PyNone PyNone example_world
                = (Raise (ValueError msg), w') \<and> trace w' = trace example_world)
   \<and> (\<exists>msg w'. freeze example_env example_elsa PyNone (PyStr example_url) example_world
                = (Raise (ValueError msg), w') \<and> trace w' = trace example_world)"
  using freeze_config_error [where env = example_env and self = example_elsa
      and path_arg = PyNone and base_url_arg = PyNone and w = example_world]
    freeze_config_error [where env = example_env and self = example_elsa
      and path_arg = PyNone and base_url_arg = "PyStr example_url" and w = example_world]
  by (simp add: py_or_def config_get_def example_defs)



text \<open>On the example application: the base URL of the instance and the path argument are the ones written; without any base URL the call raises in the initial state.\<close>

theorem freeze_precedence_witness:
  "config_get (snd (freeze example_env configured_elsa (PyStr ''/out'') PyNone example_world))
     ''FREEZER_BASE_URL'' = PyStr example_url
   \<and> config_get (snd (freeze example_env configured_elsa (PyStr ''/out'') PyNone example_world))
     ''FREEZER_DESTINATION'' = PyStr ''/out''
   \<and> freeze example_env example_elsa (PyStr ''/out'') PyNone example_world
     = (Raise (ValueError ''No base URL provided''), example_world)"
  using freeze_precedence [where env = example_env and self = configured_elsa
      and p = "PyStr ''/out''" and b = PyNone and w = example_world]
    freeze_precedence [where env = example_env and self = example_elsa
      and p = "PyStr ''/out''" and b = PyNone and w = example_world]
  by (simp add: effective_base_url_def effective_path_def config_get_def example_world_def
      example_elsa_def configured_elsa_def Elsa_init_def example_url_def)

text \<open>On the example application, after \<^verbatim>\<open>_inject_cname\<close>.\<close>

theorem freeze_server_name_witness:
  "\<exists>w'. freeze_configure example_env example_elsa (PyStr ''/out'') (PyStr example_url)
           (inject_cname example_world) = Inr w'
        \<and> config_get w' ''SERVER_NAME'' = PyStr ''example.com''
        \<and> cname w' = Inr \<lparr>body = PyStr ''example.com'', mimetype = ''application/octet-stream''\<rparr>
        \<and> routes w' = [(''/'', AppView ''index''), (''/CNAME'', CnameView)]"
proof -
  have "\<exists>w'. freeze_configure example_env example_elsa (PyStr ''/out'') (PyStr example_url)
           (inject_cname example_world) = Inr w'"
    using example_netloc_url
    by (intro freeze_configure_reaches [where host = "''example.com''"])
      (simp_all add: py_or_def example_env_def example_url_def)
  then obtain w' where fc: "freeze_configure example_env example_elsa (PyStr ''/out'')
      (PyStr example_url) (if True then inject_cname example_world else example_world) = Inr w'"
    by auto
  from freeze_server_name [OF fc] example_netloc_url fc show ?thesis
    by (auto simp: py_or_def example_env_def example_world_def example_url_def)
qed

text \<open>On the application with the rule \<^verbatim>\<open>/broken\<close>, where the example freezer warns about a mimetype mismatch.\<close>

theorem freeze_escalates_warnings_witness:
  "freeze example_env example_elsa (PyStr ''/out'') (PyStr example_url) broken_world
     = (Raise (WarningRaised (FrozenFlaskSubclass ''MimetypeMismatchWarning'') ''mimetype mismatch''),
        snd (freeze example_env example_elsa (PyStr ''/out'') (PyStr example_url) broken_world))"
proof -
  have h: "truthy (py_or (py_or (PyStr example_url) (self_base_url example_elsa))
                     (config_get broken_world ''FREEZER_BASE_URL''))"
    "truthy (py_or (PyStr ''/out'') (config_get broken_world ''FREEZER_DESTINATION''))"
    by (simp_all add: py_or_def example_url_def)
  have u: "urlparse_netloc example_env (py_or (py_or (PyStr example_url) (self_base_url example_elsa))
        (config_get broken_world ''FREEZER_BASE_URL'')) = Inr ''example.com''"
    using example_netloc_url by (simp add: py_or_def example_env_def example_url_def)
  from freeze_escalates_warnings [OF h, of example_env] u obtain w' where
    fc: "freeze_configure example_env example_elsa (PyStr ''/out'') (PyStr example_url) broken_world
          = Inr w'"
    and first: "\<forall>pre c m post w''.
        renderer example_env (config w') (routes w') = pre @ WarnStep c m # post
        \<and> issubclass c FrozenFlaskWarning
        \<and> run_steps pre (emit (FreezerFreeze (routes w')) w') = (Return, w'')
        \<longrightarrow> freeze example_env example_elsa (PyStr ''/out'') (PyStr example_url) broken_world
            = (Raise (WarningRaised c m), w'')"
    by auto
  from freeze_configure_Inr [OF fc] have "routes w' = routes broken_world" by simp
  then have r: "renderer example_env (config w') (routes w')
      = [] @ WarnStep (FrozenFlaskSubclass ''MimetypeMismatchWarning'') ''mimetype mismatch'' # []"
    by (simp add: example_env_def example_renderer_def broken_world_def)
  have "freeze example_env example_elsa (PyStr ''/out'') (PyStr example_url) broken_world
     = (Raise (WarningRaised (FrozenFlaskSubclass ''MimetypeMismatchWarning'') ''mimetype mismatch''),
        emit (FreezerFreeze (routes w')) w')"
    using first r by (metis issubclass.simps(2) run_steps.simps(1))
  then show ?thesis by simp
qed

text \<open>On the same application.\<close>

theorem freeze_fail_exit_on_warning_witness:
  "freeze_fail_exit example_env example_elsa (PyStr ''/out'') (PyStr example_url) broken_world
     = (Raise (SystemExit 1),
        emit (Stderr ''Error: mimetype mismatch'')
          (snd (freeze example_env example_elsa (PyStr ''/out'') (PyStr example_url) broken_world)))
   \<and> exit_status (fst (freeze_fail_exit example_env example_elsa (PyStr ''/out'')
                         (PyStr example_url) broken_world)) = 1"
proof -
  have h: "freeze example_env example_elsa (PyStr ''/out'') (PyStr example_url) broken_world
     = (Raise (WarningRaised (FrozenFlaskSubclass ''MimetypeMismatchWarning'') ''mimetype mismatch''),
        snd (freeze example_env example_elsa (PyStr ''/out'') (PyStr example_url) broken_world))"
    by (simp add: freeze_def freeze_configure_def freezer_freeze_def Let_def py_or_def
        config_get_def config_set_def emit_def filterwarnings_def add_filter_def
        warnings_warn_def example_defs)
  from freeze_fail_exit_on_warning [OF h] show ?thesis by simp
qed

text \<open>
  The command \<^verbatim>\<open>deploy --remote upstream\<close> on an instance with a base URL: the
  warning, the freeze, and the publisher called with \<^verbatim>\<open>push=True\<close>, which pushes.
\<close>

theorem deploy_push_default_witness:
  "dp_push upstream_deploy_args = None
   \<and> fst (cli_deploy example_env configured_elsa upstream_deploy_args example_world) = Return
   \<and> trace (snd (cli_deploy example_env configured_elsa upstream_deploy_args example_world))
     = [Warned ActAlways DeprecationWarning deprecation_msg,
        Stdout ''Generating HTML...'',
        FreezerFreeze [(''/'', AppView ''index''), (''/CNAME'', CnameView)],
        PublisherCalled (PyStr ''/srv/site/_build'') ''upstream'' True False,
        Committed (PyStr ''/srv/site/_build''),
        Pushed ''upstream'']"
proof -
  have p: "dp_push upstream_deploy_args = None"
    by (simp add: upstream_deploy_args_def bare_deploy_args_def)
  note t = deploy_push_default [OF p, of example_world example_env configured_elsa]
  note eq = t [THEN conjunct2, THEN conjunct2, THEN conjunct2, THEN conjunct1]
  show ?thesis
    unfolding eq
    by (simp add: p deploy_freeze_def freeze_fail_exit_def freeze_def freeze_configure_def
        freezer_freeze_def deployment_deploy_def Let_def py_or_def config_get_def config_set_def
        emit_def filterwarnings_def simplefilter_def add_filter_def inject_cname_def
        path_option_def base_url_option_def cname_option_def os_path_join_def
        upstream_deploy_args_def example_defs)
qed

text \<open>The three commands without options, and the methods, on the example application.\<close>

theorem shutdown_only_by_serve_witness:
  "shutdown_attached (snd (cli_serve example_env example_elsa bare_serve_args example_world))
   \<and> shutdown_free example_world
   \<and> shutdown_free (snd (cli_freeze example_env configured_elsa bare_freeze_args example_world))
   \<and> shutdown_free (snd (cli_deploy example_env configured_elsa bare_deploy_args example_world))
   \<and> shutdown_free (snd (freeze example_env configured_elsa (PyStr ''/out'') PyNone example_world))
   \<and> shutdown_free (snd (freeze_fail_exit example_env configured_elsa (PyStr ''/out'') PyNone
                           example_world))
   \<and> shutdown_free (snd (deploy example_env configured_elsa bare_kwargs example_world))"
  using shutdown_only_by_serve [where env = example_env and self = configured_elsa
      and sa = bare_serve_args and fa = bare_freeze_args and da = bare_deploy_args
      and p = "PyStr ''/out''" and b = PyNone and kw = bare_kwargs and w = example_world]
    shutdown_only_by_serve [where env = example_env and self = example_elsa
      and sa = bare_serve_args and w = example_world]
  by (simp add: shutdown_free_def shutdown_attached_def example_world_def)

text \<open>
  A push that fails, through \<^verbatim>\<open>Elsa.deploy\<close> and through the command, with and
  without the flag.
\<close>

theorem show_err_default_witness:
  "trace (snd (deploy example_env example_elsa (push_kwargs None) example_world))
     = [PublisherCalled (PyStr ''/srv/site/_build'') ''origin'' True False,
        Committed (PyStr ''/srv/site/_build'')]
   \<and> trace (snd (deploy example_env example_elsa (push_kwargs (Some True)) example_world))
     = [PublisherCalled (PyStr ''/srv/site/_build'') ''origin'' True True,
        Committed (PyStr ''/srv/site/_build''),
        GitPushStderr ''fatal: Authentication failed'']
   \<and> trace (snd (cli_deploy example_env example_elsa (push_deploy_args False) example_world))
     = [PublisherCalled (PyStr ''/srv/site/_build'') ''origin'' True False,
        Committed (PyStr ''/srv/site/_build'')]
   \<and> trace (snd (cli_deploy example_env example_elsa (push_deploy_args True) example_world))
     = [PublisherCalled (PyStr ''/srv/site/_build'') ''origin'' True True,
        Committed (PyStr ''/srv/site/_build''),
        GitPushStderr ''fatal: Authentication failed'']
   \<and> trace (snd (deployment_deploy example_env (PyStr ''/srv/site/_build'') ''origin'' True False
                    example_world))
     = [PublisherCalled (PyStr ''/srv/site/_build'') ''origin'' True False,
        Committed (PyStr ''/srv/site/_build'')]
   \<and> deploy example_env example_elsa (push_kwargs None) example_world
     = deploy example_env example_elsa (push_kwargs (Some False)) example_world"
proof -
  have tv: "tree_valid example_env (PyStr ''/srv/site/_build'')"
    and gp: "git_push example_env ''origin'' = Some ''fatal: Authentication failed''"
    by (simp_all add: example_env_def)
  have kw: "kw_push (push_kwargs se) = Some True"
    "py_or (kw_remote (push_kwargs se)) (PyStr DEFAULT_REMOTE) = PyStr ''origin''"
    "py_or (kw_path (push_kwargs se)) (config_get example_world ''FREEZER_DESTINATION'')
       = PyStr ''/srv/site/_build''"
    "kw_show_err (push_kwargs se) = se" for se
    by (simp_all add: push_kwargs_def py_or_def DEFAULT_REMOTE_def)
  have da: "dp_push (push_deploy_args flag) \<noteq> Some False"
    "deploy_freeze example_env example_elsa
       (case dp_freeze (push_deploy_args flag) of None \<Rightarrow> True | Some b \<Rightarrow> b)
       (cname_option (dp_cname (push_deploy_args flag)))
       (path_option example_env (dp_path (push_deploy_args flag)))
       (base_url_option example_elsa (dp_base_url (push_deploy_args flag)))
       (case dp_push (push_deploy_args flag) of
          None \<Rightarrow> emit (Warned ActAlways DeprecationWarning deprecation_msg)
                       (simplefilter ActAlways example_world)
        | Some b \<Rightarrow> example_world) = (Return, example_world)"
    "path_option example_env (dp_path (push_deploy_args flag)) = PyStr ''/srv/site/_build''"
    "(case dp_remote (push_deploy_args flag) of None \<Rightarrow> DEFAULT_REMOTE | Some r \<Rightarrow> r) = ''origin''"
    "dp_show_git_push_stderr (push_deploy_args flag) = flag" for flag
    by (simp_all add: push_deploy_args_def deploy_freeze_def path_option_def os_path_join_def
        example_env_def DEFAULT_REMOTE_def)
  note t = show_err_default [where env = example_env and self = example_elsa
      and w = example_world and err = "''fatal: Authentication failed''"
      and remote = "''origin''" and path = "PyStr ''/srv/site/_build''" and wr = example_world]
  note t0 = t [where kw = "push_kwargs None" and args = "push_deploy_args False"
      and show_err = False]
  note t1 = t [where kw = "push_kwargs (Some True)" and args = "push_deploy_args True"
      and show_err = True]
  have e0: "trace example_world = []" by (simp add: example_world_def)
  have a: "deploy example_env example_elsa (push_kwargs None) example_world
     = deploy example_env example_elsa (push_kwargs (Some False)) example_world"
    using t0 [THEN conjunct1] by (simp add: push_kwargs_def)
  have d: "trace (snd (deployment_deploy example_env (PyStr ''/srv/site/_build'') ''origin''
                         True False example_world))
     = [PublisherCalled (PyStr ''/srv/site/_build'') ''origin'' True False,
        Committed (PyStr ''/srv/site/_build'')]"
    using t0 [THEN conjunct2, THEN conjunct2, THEN conjunct2, THEN conjunct1] tv gp
    by (simp add: e0)
  have k0: "trace (snd (deploy example_env example_elsa (push_kwargs None) example_world))
     = [PublisherCalled (PyStr ''/srv/site/_build'') ''origin'' True False,
        Committed (PyStr ''/srv/site/_build'')]"
    using t0 [THEN conjunct2, THEN conjunct2, THEN conjunct2, THEN conjunct2, THEN conjunct1]
      tv gp kw [of None]
    by (simp add: e0)
  have k1: "trace (snd (deploy example_env example_elsa (push_kwargs (Some True)) example_world))
     = [PublisherCalled (PyStr ''/srv/site/_build'') ''origin'' True True,
        Committed (PyStr ''/srv/site/_build''),
        GitPushStderr ''fatal: Authentication failed'']"
    using t1 [THEN conjunct2, THEN conjunct2, THEN conjunct2, THEN conjunct2, THEN conjunct1]
      tv gp kw [of "Some True"]
    by (simp add: e0)
  have c0: "trace (snd (cli_deploy example_env example_elsa (push_deploy_args False) example_world))
     = [PublisherCalled (PyStr ''/srv/site/_build'') ''origin'' True False,
        Committed (PyStr ''/srv/site/_build'')]"
    using t0 [THEN conjunct2, THEN conjunct2, THEN conjunct2, THEN conjunct2, THEN conjunct2]
      tv gp da [of False]
    by (simp add: e0)
  have c1: "trace (snd (cli_deploy example_env example_elsa (push_deploy_args True) example_world))
     = [PublisherCalled (PyStr ''/srv/site/_build'') ''origin'' True True,
        Committed (PyStr ''/srv/site/_build''),
        GitPushStderr ''fatal: Authentication failed'']"
    using t1 [THEN conjunct2, THEN conjunct2, THEN conjunct2, THEN conjunct2, THEN conjunct2]
      tv gp da [of True]
    by (simp add: e0)
  from a d k0 k1 c0 c1 show ?thesis by simp
qed

text \<open>The commands without options on an instance that was given no base URL.\<close>

theorem cli_requires_base_url_witness:
  "cli_freeze example_env example_elsa bare_freeze_args example_world
     = (Raise (UsageError ''No base URL provided, use --base-url''), inject_cname example_world)
   \<and> cli_deploy example_env example_elsa bare_deploy_args example_world
     = (Raise (UsageError ''No base URL provided, use --base-url''),
        inject_cname (emit (Warned ActAlways DeprecationWarning deprecation_msg)
                        (simplefilter ActAlways example_world)))
   \<and> exit_status (fst (cli_freeze example_env example_elsa bare_freeze_args example_world)) = 2"
  using cli_requires_base_url [where env = example_env and self = example_elsa
      and fa = bare_freeze_args and da = bare_deploy_args and w = example_world]
  by (simp add: base_url_option_def cname_option_def bare_freeze_args_def bare_deploy_args_def
      example_elsa_def Elsa_init_def)

end
